theory Spec2Isabelle
  imports Main "HOL-Library.Word"
begin

section \<open>Strings of the source language\<close>

text \<open>
  A TypeScript string is a sequence of UTF-16 code units and \<open>.length\<close> counts them, so
  a string is a list of 16-bit words. ASCII text of the source is embedded with \<open>asc\<close>; a
  character outside ASCII is written as its code units.
\<close>

type_synonym jschar = "16 word"
type_synonym jsstring = "jschar list"

definition asc :: "string \<Rightarrow> jsstring" where
  "asc s = map of_char s"

text \<open>
  The characters that \<open>String.prototype.trim\<close> strips and that the regular expression
  class \<open>\s\<close> matches: ECMAScript WhiteSpace and LineTerminator.
\<close>

definition isWhiteSpace :: "jschar \<Rightarrow> bool" where
  "isWhiteSpace c \<longleftrightarrow>
     c \<in> set [0x0009, 0x000A, 0x000B, 0x000C, 0x000D, 0x0020, 0x00A0, 0x1680,
               0x2000, 0x2001, 0x2002, 0x2003, 0x2004, 0x2005, 0x2006, 0x2007,
               0x2008, 0x2009, 0x200A, 0x2028, 0x2029, 0x202F, 0x205F, 0x3000, 0xFEFF]"

definition trim :: "jsstring \<Rightarrow> jsstring" where
  "trim s = rev (dropWhile isWhiteSpace (rev (dropWhile isWhiteSpace s)))"

section \<open>The merchant dashboard: \<open>page.tsx\<close>\<close>

text \<open>
  The component state of \<open>Home\<close> (five \<open>useState\<close> cells). \<open>result\<close> is \<open>None\<close> when
  \<open>setResult\<close> received \<open>undefined\<close>, which \<open>data.result\<close> of an untyped JSON body can be.
\<close>

record page_state =
  st_businessType :: jsstring
  st_topic :: jsstring
  st_result :: "jsstring option"
  st_loading :: bool
  st_error :: jsstring

text \<open>What a \<open>catch\<close> can receive: an \<open>Error\<close> object with its message, or any other value.\<close>

datatype thrown = ErrorObject jsstring | OtherValue

datatype 'a completion = Resolves 'a | Rejects thrown

text \<open>The parsed body of the response; a field that is absent reads as \<open>undefined\<close>.\<close>

record api_data =
  data_error :: "jsstring option"
  data_result :: "jsstring option"

record http_response =
  ok :: bool
  json :: "api_data completion"

text \<open>
  The request handed to \<open>fetch\<close>: the URL, the method and the object that
  \<open>JSON.stringify\<close> serialises into the body.
\<close>

record fetch_request =
  url :: jsstring
  http_method :: jsstring
  body_topic :: jsstring
  body_businessType :: jsstring

definition catch_message :: "thrown \<Rightarrow> jsstring" where
  "catch_message t = (case t of ErrorObject m \<Rightarrow> m | OtherValue \<Rightarrow> asc ''An error occurred'')"

text \<open>\<open>data.error || 'Failed to generate campaign'\<close>: the default replaces a falsy value.\<close>

definition error_or_default :: "api_data \<Rightarrow> jsstring" where
  "error_or_default d =
     (case data_error d of
        None \<Rightarrow> asc ''Failed to generate campaign''
      | Some e \<Rightarrow> if e = [] then asc ''Failed to generate campaign'' else e)"

text \<open>
  \<open>handleGenerate\<close>, with the network as a parameter. It returns the component state after
  the handler has run and the requests it sent, in order. \<open>!topic.trim()\<close> holds exactly
  when the trimmed topic is the empty string.
\<close>

definition handleGenerate ::
  "(fetch_request \<Rightarrow> http_response completion) \<Rightarrow> page_state \<Rightarrow> page_state \<times> fetch_request list"
where
  "handleGenerate fetch s =
     (if trim (st_topic s) = [] then
        (s\<lparr>st_error := asc ''Please enter a campaign topic''\<rparr>, [])
      else
        let s1 = s\<lparr>st_loading := True, st_error := [], st_result := Some []\<rparr>;
            req = \<lparr>url = asc ''/api/generate'', http_method = asc ''POST'',
                   body_topic = st_topic s, body_businessType = st_businessType s\<rparr>;
            s2 = (case fetch req of
                    Rejects t \<Rightarrow> s1\<lparr>st_error := catch_message t\<rparr>
                  | Resolves response \<Rightarrow>
                      (case json response of
                         Rejects t \<Rightarrow> s1\<lparr>st_error := catch_message t\<rparr>
                       | Resolves d \<Rightarrow>
                           if \<not> ok response
                           then s1\<lparr>st_error := catch_message (ErrorObject (error_or_default d))\<rparr>
                           else s1\<lparr>st_result := data_result d\<rparr>))
        in (s2\<lparr>st_loading := False\<rparr>, [req]))"

text \<open>The state of the freshly mounted component with a topic typed in.\<close>

definition initial_page :: "jsstring \<Rightarrow> page_state" where
  "initial_page t =
     \<lparr>st_businessType = asc ''Retail'', st_topic = t, st_result = Some [],
       st_loading = False, st_error = []\<rparr>"

section \<open>Shared data of the design document: \<open>design.md\<close>\<close>

datatype platform = Instagram | LinkedIn

text \<open>The tag a platform carries in requests and in storage keys.\<close>

definition platform_name :: "platform \<Rightarrow> jsstring" where
  "platform_name p = (case p of Instagram \<Rightarrow> asc ''instagram'' | LinkedIn \<Rightarrow> asc ''linkedin'')"

datatype status = Generating | Complete | Partial | Failed

datatype component = Image | Video | Text

record generation_error =
  err_component :: component
  errorCode :: jsstring
  errorMessage :: jsstring
  err_timestamp :: nat

type_synonym bytes = "8 word list"

record dimensions =
  width :: nat
  height :: nat

record image_asset =
  img_assetId :: jsstring
  img_s3Key :: jsstring
  img_s3Url :: jsstring
  img_thumbnailUrl :: jsstring
  img_dimensions :: dimensions
  img_platform :: platform

record video_asset =
  vid_assetId :: jsstring
  vid_s3Key :: jsstring
  vid_s3Url :: jsstring
  vid_duration :: nat
  vid_format :: jsstring

text \<open>The decimal numeral that string interpolation produces for a non-negative integer.\<close>

fun show_nat :: "nat \<Rightarrow> jsstring" where
  "show_nat n =
     (if n < 10 then [0x30 + of_nat n]
      else show_nat (n div 10) @ [0x30 + of_nat (n mod 10)])"

declare show_nat.simps [simp del]

subsection \<open>The content orchestrator\<close>

record generation_request =
  req_prompt :: jsstring
  req_userId :: jsstring
  req_platforms :: "platform list"

text \<open>What \<open>awaitAll\<close> hands back; a generator that delivered nothing leaves its fields undefined.\<close>

record generator_results =
  res_images :: "image_asset list option"
  res_videos :: "video_asset list option"
  res_captions :: "(platform \<times> jsstring) list option"
  res_hashtags :: "(platform \<times> jsstring list) list option"

record generation_response =
  resp_projectId :: jsstring
  resp_images :: "image_asset list"
  resp_videos :: "video_asset list"
  resp_captions :: "(platform \<times> jsstring) list"
  resp_hashtags :: "(platform \<times> jsstring list) list"
  resp_status :: status
  resp_errors :: "generation_error list"

record project_item =
  item_projectId :: jsstring
  item_userId :: jsstring
  item_prompt :: jsstring
  item_createdAt :: nat
  item_status :: status
  item_assets :: "generation_response option"
  item_completedAt :: "nat option"

datatype invocation =
    ImageGeneratorLambda jsstring jsstring nat "platform list"
  | VideoGeneratorLambda jsstring jsstring
  | TextGeneratorLambda jsstring "platform list"

text \<open>
  Everything the orchestrator can change or read outside its arguments: the clock, the
  number of identifiers drawn so far, the DynamoDB table (keyed by project id) and the
  asynchronous invocations issued, oldest first.
\<close>

record orchestrator_world =
  clock :: nat
  uuids_drawn :: nat
  table :: "(jsstring \<times> project_item) list"
  invoked :: "invocation list"

text \<open>
  The collaborators that the document calls but does not define. \<open>uuid_of n\<close> is the
  \<open>n\<close>-th identifier \<open>generateUUID\<close> hands out; \<open>awaitAll\<close> runs the invoked generators
  under the timeout and may change the world while it waits.
\<close>

record orchestrator_env =
  uuid_of :: "nat \<Rightarrow> jsstring"
  awaitAll :: "invocation list \<Rightarrow> nat \<Rightarrow> orchestrator_world \<Rightarrow> generator_results \<times> orchestrator_world"
  determineStatus :: "generator_results \<Rightarrow> status"
  collectErrors :: "generator_results \<Rightarrow> generation_error list"

definition putItem :: "project_item \<Rightarrow> orchestrator_world \<Rightarrow> orchestrator_world" where
  "putItem p w = w\<lparr>table := (item_projectId p, p) # filter (\<lambda>kv. fst kv \<noteq> item_projectId p) (table w)\<rparr>"

definition updateItem ::
  "jsstring \<Rightarrow> status \<Rightarrow> generation_response \<Rightarrow> nat \<Rightarrow> orchestrator_world \<Rightarrow> orchestrator_world"
where
  "updateItem pid st assets completed w =
     w\<lparr>table := map (\<lambda>kv. if fst kv = pid
                              then (fst kv, (snd kv)\<lparr>item_status := st, item_assets := Some assets,
                                                      item_completedAt := Some completed\<rparr>)
                              else kv) (table w)\<rparr>"

text \<open>\<open>x || d\<close> on a value that is either undefined or a list or dictionary (both truthy).\<close>

definition or_default :: "'a option \<Rightarrow> 'a \<Rightarrow> 'a" where
  "or_default x d = (case x of None \<Rightarrow> d | Some v \<Rightarrow> v)"

text \<open>
  \<open>handleContentGeneration\<close>. The result is \<open>Inl\<close> of the message when the function
  returns \<open>error(...)\<close>, and \<open>Inr\<close> of the response otherwise; the second component is
  the world it leaves behind.
\<close>

definition handleContentGeneration ::
  "orchestrator_env \<Rightarrow> generation_request \<Rightarrow> orchestrator_world \<Rightarrow>
     (jsstring + generation_response) \<times> orchestrator_world"
where
  "handleContentGeneration env request w =
     (if length (req_prompt request) < 3 then (Inl (asc ''Prompt too short''), w)
      else
        let projectId = uuid_of env (uuids_drawn w);
            w1 = w\<lparr>uuids_drawn := uuids_drawn w + 1\<rparr>;
            project = \<lparr>item_projectId = projectId, item_userId = req_userId request,
                       item_prompt = req_prompt request, item_createdAt = clock w1,
                       item_status = Generating, item_assets = None, item_completedAt = None\<rparr>;
            w2 = putItem project w1;
            promises = [ImageGeneratorLambda (req_prompt request) projectId 3 (req_platforms request),
                        VideoGeneratorLambda (req_prompt request) projectId,
                        TextGeneratorLambda (req_prompt request) (req_platforms request)];
            w3 = w2\<lparr>invoked := invoked w2 @ promises\<rparr>;
            (results, w4) = awaitAll env promises 30 w3;
            response = \<lparr>resp_projectId = projectId,
                        resp_images = or_default (res_images results) [],
                        resp_videos = or_default (res_videos results) [],
                        resp_captions = or_default (res_captions results) [],
                        resp_hashtags = or_default (res_hashtags results) [],
                        resp_status = determineStatus env results,
                        resp_errors = collectErrors env results\<rparr>;
            w5 = updateItem projectId (resp_status response) response (clock w4) w4
        in (Inr response, w5))"

subsection \<open>Retry with backoff\<close>

text \<open>
  What \<open>operation()\<close> can raise: the two classes the loop catches, and any other
  exception, which no \<open>catch\<close> clause of the loop matches.
\<close>

datatype 'e failure = RetryableError 'e | NonRetryableError 'e | UncaughtError 'e

record retry_world =
  attempts_made :: nat
  sleeps :: "nat list"

text \<open>
  The \<open>for attempt in range(maxRetries)\<close> loop, over the attempts still to run.
  \<open>operation n\<close> is the outcome of the call made after \<open>n\<close> earlier calls. The result is
  \<open>Inl\<close> of what the loop throws, \<open>Inr (Some v)\<close> when it returns \<open>v\<close>, and \<open>Inr None\<close>
  when the loop ends without returning. The comparison with \<open>maxRetries - 1\<close> is made on
  integers, since the difference is negative for \<open>maxRetries = 0\<close>.
\<close>

fun retry_attempts ::
  "(nat \<Rightarrow> 'e failure + 'a) \<Rightarrow> nat \<Rightarrow> nat list \<Rightarrow> retry_world \<Rightarrow>
     ('e failure + 'a option) \<times> retry_world"
where
  "retry_attempts operation maxRetries [] w = (Inr None, w)"
| "retry_attempts operation maxRetries (attempt # rest) w =
     (let w1 = w\<lparr>attempts_made := attempts_made w + 1\<rparr> in
      case operation (attempts_made w) of
        Inr v \<Rightarrow> (Inr (Some v), w1)
      | Inl (RetryableError e) \<Rightarrow>
          if int attempt \<ge> int maxRetries - 1 then (Inl (RetryableError e), w1)
          else retry_attempts operation maxRetries rest
                 (w1\<lparr>sleeps := sleeps w1 @ [2 ^ attempt * 100]\<rparr>)
      | Inl (NonRetryableError e) \<Rightarrow> (Inl (NonRetryableError e), w1)
      | Inl (UncaughtError e) \<Rightarrow> (Inl (UncaughtError e), w1))"

definition retryWithBackoff ::
  "(nat \<Rightarrow> 'e failure + 'a) \<Rightarrow> nat \<Rightarrow> retry_world \<Rightarrow> ('e failure + 'a option) \<times> retry_world"
where
  "retryWithBackoff operation maxRetries w = retry_attempts operation maxRetries [0..<maxRetries] w"

definition fresh_retry_world :: retry_world where
  "fresh_retry_world = \<lparr>attempts_made = 0, sleeps = []\<rparr>"

definition is_retryable :: "'e failure + 'a \<Rightarrow> bool" where
  "is_retryable r = (case r of Inl (RetryableError e) \<Rightarrow> True | _ \<Rightarrow> False)"

text \<open>The outcome of one call as the loop passes it on: a value is returned, an error thrown.\<close>

definition passed_on :: "'e failure + 'a \<Rightarrow> 'e failure + 'a option" where
  "passed_on r = (case r of Inl f \<Rightarrow> Inl f | Inr v \<Rightarrow> Inr (Some v))"

subsection \<open>Partial failure handling\<close>

record 'a component_result =
  success :: bool
  data :: "'a list"

record 'a partial_results =
  pr_images :: "'a component_result"
  pr_videos :: "'a component_result"
  pr_text :: "'a component_result"
  pr_error :: "jsstring option"

text \<open>
  The object \<open>handlePartialFailure\<close> returns. The two branches build objects with
  different fields; a field the branch does not set is \<open>None\<close>.
\<close>

record 'a failure_report =
  fr_status :: status
  fr_assets :: "'a list option"
  fr_message :: jsstring
  fr_retryableComponents :: "jsstring list option"
  fr_error :: "jsstring option"

fun join :: "jsstring list \<Rightarrow> jsstring \<Rightarrow> jsstring" where
  "join [] sep = []"
| "join [x] sep = x"
| "join (x # y # ys) sep = x @ sep @ join (y # ys) sep"

definition successfulAssets :: "'a partial_results \<Rightarrow> 'a list" where
  "successfulAssets results =
     (if success (pr_images results) then data (pr_images results) else []) @
     (if success (pr_videos results) then data (pr_videos results) else []) @
     (if success (pr_text results) then data (pr_text results) else [])"

definition failedComponents :: "'a partial_results \<Rightarrow> jsstring list" where
  "failedComponents results =
     (if success (pr_images results) then [] else [asc ''images'']) @
     (if success (pr_videos results) then [] else [asc ''videos'']) @
     (if success (pr_text results) then [] else [asc ''captions and hashtags''])"

definition handlePartialFailure :: "'a partial_results \<Rightarrow> 'a failure_report" where
  "handlePartialFailure results =
     (if length (successfulAssets results) > 0 then
        \<lparr>fr_status = Partial,
         fr_assets = Some (successfulAssets results),
         fr_message = asc ''Generated '' @ show_nat (length (successfulAssets results)) @
                      asc '' assets. Failed to generate: '' @
                      join (failedComponents results) (asc '', ''),
         fr_retryableComponents = Some (failedComponents results),
         fr_error = None\<rparr>
      else
        \<lparr>fr_status = Failed,
         fr_assets = None,
         fr_message = asc ''Unable to generate any content. Please try again.'',
         fr_retryableComponents = None,
         fr_error = pr_error results\<rparr>)"

subsection \<open>The generator Lambdas\<close>

text \<open>A Bedrock call either returns the model's output or raises; the image generator
  tells a rate-limit error from every other one.\<close>

datatype 'a model_outcome = ModelOutput 'a | RateLimitError jsstring | OtherError jsstring

record titan_request =
  titan_text :: jsstring
  titan_width :: nat
  titan_height :: nat

record diffusion_request =
  sd_text :: jsstring
  sd_cfg_scale :: nat
  sd_steps :: nat
  sd_seed :: nat
  sd_video_length :: nat

record claude_request =
  claude_content :: jsstring
  claude_max_tokens :: nat

text \<open>
  What a Lambda changes: the number of Bedrock calls made, identifiers and random numbers
  drawn, the \<open>putObject\<close> calls on the bucket (oldest first), the video requests sent,
  the sleeps and the log.
\<close>

record lambda_world =
  bedrock_calls :: nat
  ids_drawn :: nat
  random_drawn :: nat
  bucket :: "(jsstring \<times> bytes option) list"
  video_requests :: "diffusion_request list"
  slept :: "nat list"
  logged :: "jsstring list"

text \<open>
  The services and helpers the document calls without defining them. A model's answer
  may depend on how many calls were made before (\<open>invokeTitan env n\<close> answers the call
  made after \<open>n\<close> earlier ones); \<open>id_of n\<close> is the \<open>n\<close>-th result of \<open>generateUUID\<close> and
  \<open>entropy n\<close> the \<open>n\<close>-th raw random draw. \<open>resizeImage\<close> and
  \<open>extractDuration\<close> receive \<open>None\<close> when the data variable was never assigned.
\<close>

record lambda_env =
  invokeTitan :: "nat \<Rightarrow> titan_request \<Rightarrow> bytes model_outcome"
  invokeDiffusion :: "nat \<Rightarrow> diffusion_request \<Rightarrow> bytes model_outcome"
  invokeClaude :: "nat \<Rightarrow> claude_request \<Rightarrow> jsstring model_outcome"
  exponentialBackoff :: "nat \<Rightarrow> nat"
  resizeImage :: "bytes option \<Rightarrow> nat \<Rightarrow> bytes option"
  generatePresignedUrl :: "jsstring \<Rightarrow> nat \<Rightarrow> jsstring"
  extractDuration :: "bytes option \<Rightarrow> nat"
  id_of :: "nat \<Rightarrow> jsstring"
  entropy :: "nat \<Rightarrow> nat"

definition sleep :: "nat \<Rightarrow> lambda_world \<Rightarrow> lambda_world" where
  "sleep ms w = w\<lparr>slept := slept w @ [ms]\<rparr>"

definition putObject :: "jsstring \<Rightarrow> bytes option \<Rightarrow> lambda_world \<Rightarrow> lambda_world" where
  "putObject key body w = w\<lparr>bucket := bucket w @ [(key, body)]\<rparr>"

definition generateUUID :: "lambda_env \<Rightarrow> lambda_world \<Rightarrow> jsstring \<times> lambda_world" where
  "generateUUID env w = (id_of env (ids_drawn w), w\<lparr>ids_drawn := ids_drawn w + 1\<rparr>)"

text \<open>
  Modelled from the spec: \<open>randomInt\<close> is called by \<open>generateVideo\<close> and defined nowhere
  in the sources; the specification has the target duration "sampled into [3,10]", so
  \<open>randomInt lo hi\<close> maps a raw draw \<open>r\<close> into the inclusive range.
\<close>

definition randomInt :: "nat \<Rightarrow> nat \<Rightarrow> nat \<Rightarrow> nat" where
  "randomInt lo hi r = lo + r mod (hi - lo + 1)"

subsubsection \<open>Image generator\<close>

definition getPlatformDimensions :: "platform \<Rightarrow> dimensions" where
  "getPlatformDimensions p =
     (case p of Instagram \<Rightarrow> \<lparr>width = 1080, height = 1080\<rparr>
              | LinkedIn \<Rightarrow> \<lparr>width = 1200, height = 627\<rparr>)"

text \<open>
  The \<open>while retries < 3\<close> loop of \<open>generateImages\<close>. \<open>imageData\<close> is the variable as
  the loop finds it; the loop returns it unchanged when three rate-limit errors end the
  loop without an assignment. \<open>Inl\<close> is the function's \<open>return error\<close>.
\<close>

function image_retry_loop ::
  "lambda_env \<Rightarrow> titan_request \<Rightarrow> nat \<Rightarrow> bytes option \<Rightarrow> lambda_world \<Rightarrow>
     (jsstring + bytes option) \<times> lambda_world"
where
  "image_retry_loop env req retries imageData w =
     (if retries < 3 then
        let w1 = w\<lparr>bedrock_calls := bedrock_calls w + 1\<rparr> in
        case invokeTitan env (bedrock_calls w) req of
          ModelOutput d \<Rightarrow> (Inr (Some d), w1)
        | RateLimitError e \<Rightarrow>
            image_retry_loop env req (retries + 1) imageData
              (sleep (exponentialBackoff env (retries + 1)) w1)
        | OtherError e \<Rightarrow>
            let w2 = w1\<lparr>logged := logged w1 @ [e]\<rparr> in
            if retries \<ge> 2 then (Inl e, w2)
            else image_retry_loop env req (retries + 1) imageData w2
      else (Inr imageData, w))"
  by pat_completeness auto
termination
  by (relation "measure (\<lambda>(env, req, retries, imageData, w). 3 - retries)") auto

declare image_retry_loop.simps [simp del]

definition image_s3Key :: "jsstring \<Rightarrow> jsstring \<Rightarrow> platform \<Rightarrow> nat \<Rightarrow> jsstring" where
  "image_s3Key userId projectId p i =
     asc ''users/'' @ userId @ asc ''/projects/'' @ projectId @ asc ''/images/'' @
     platform_name p @ asc ''_'' @ show_nat i @ asc ''.png''"

text \<open>The body of the inner loop, for one index and one platform. The accumulator is the
  list \<open>images\<close> together with the variable \<open>imageData\<close>.\<close>

definition image_iteration ::
  "lambda_env \<Rightarrow> jsstring \<Rightarrow> jsstring \<Rightarrow> jsstring \<Rightarrow> nat \<Rightarrow> platform \<Rightarrow>
     image_asset list \<times> bytes option \<Rightarrow> lambda_world \<Rightarrow>
     (jsstring + image_asset list \<times> bytes option) \<times> lambda_world"
where
  "image_iteration env userId prompt projectId i p acc w =
     (let dims = getPlatformDimensions p;
          req = \<lparr>titan_text = prompt, titan_width = width dims, titan_height = height dims\<rparr>
      in case image_retry_loop env req 0 (snd acc) w of
           (Inl e, w1) \<Rightarrow> (Inl e, w1)
         | (Inr imageData, w1) \<Rightarrow>
             let s3Key = image_s3Key userId projectId p i;
                 w2 = putObject s3Key imageData w1;
                 thumbnail = resizeImage env imageData 300;
                 thumbnailKey = s3Key @ asc ''_thumb.png'';
                 w3 = putObject thumbnailKey thumbnail w2;
                 imageUrl = generatePresignedUrl env s3Key 3600;
                 thumbnailUrl = generatePresignedUrl env thumbnailKey 3600;
                 (assetId, w4) = generateUUID env w3
             in (Inr (fst acc @ [\<lparr>img_assetId = assetId, img_s3Key = s3Key, img_s3Url = imageUrl,
                                     img_thumbnailUrl = thumbnailUrl, img_dimensions = dims,
                                     img_platform = p\<rparr>], imageData), w4))"

fun for_platforms ::
  "lambda_env \<Rightarrow> jsstring \<Rightarrow> jsstring \<Rightarrow> jsstring \<Rightarrow> nat \<Rightarrow> platform list \<Rightarrow>
     image_asset list \<times> bytes option \<Rightarrow> lambda_world \<Rightarrow>
     (jsstring + image_asset list \<times> bytes option) \<times> lambda_world"
where
  "for_platforms env userId prompt projectId i [] acc w = (Inr acc, w)"
| "for_platforms env userId prompt projectId i (p # ps) acc w =
     (case image_iteration env userId prompt projectId i p acc w of
        (Inl e, w1) \<Rightarrow> (Inl e, w1)
      | (Inr acc1, w1) \<Rightarrow> for_platforms env userId prompt projectId i ps acc1 w1)"

fun for_indices ::
  "lambda_env \<Rightarrow> jsstring \<Rightarrow> jsstring \<Rightarrow> jsstring \<Rightarrow> platform list \<Rightarrow> nat list \<Rightarrow>
     image_asset list \<times> bytes option \<Rightarrow> lambda_world \<Rightarrow>
     (jsstring + image_asset list \<times> bytes option) \<times> lambda_world"
where
  "for_indices env userId prompt projectId ps [] acc w = (Inr acc, w)"
| "for_indices env userId prompt projectId ps (i # is) acc w =
     (case for_platforms env userId prompt projectId i ps acc w of
        (Inl e, w1) \<Rightarrow> (Inl e, w1)
      | (Inr acc1, w1) \<Rightarrow> for_indices env userId prompt projectId ps is acc1 w1)"

text \<open>
  \<open>generateImages(prompt, projectId, count, platforms)\<close>. The key template also reads
  \<open>userId\<close>, which the pseudocode leaves free; it is a parameter here.
\<close>

definition generateImages ::
  "lambda_env \<Rightarrow> jsstring \<Rightarrow> jsstring \<Rightarrow> jsstring \<Rightarrow> nat \<Rightarrow> platform list \<Rightarrow> lambda_world \<Rightarrow>
     (jsstring + image_asset list) \<times> lambda_world"
where
  "generateImages env userId prompt projectId count ps w =
     (case for_indices env userId prompt projectId ps [0..<count] ([], None) w of
        (Inl e, w1) \<Rightarrow> (Inl e, w1)
      | (Inr acc, w1) \<Rightarrow> (Inr (fst acc), w1))"

subsubsection \<open>Video generator\<close>

text \<open>The request of one attempt: a fresh seed and a fresh video length are drawn for it.\<close>

definition video_request :: "lambda_env \<Rightarrow> jsstring \<Rightarrow> lambda_world \<Rightarrow> diffusion_request" where
  "video_request env prompt w =
     \<lparr>sd_text = prompt, sd_cfg_scale = 7, sd_steps = 30,
      sd_seed = entropy env (random_drawn w),
      sd_video_length = randomInt 3 10 (entropy env (random_drawn w + 1))\<rparr>"

definition after_video_call :: "diffusion_request \<Rightarrow> lambda_world \<Rightarrow> lambda_world" where
  "after_video_call req w =
     w\<lparr>random_drawn := random_drawn w + 2,
       bedrock_calls := bedrock_calls w + 1,
       video_requests := video_requests w @ [req]\<rparr>"

text \<open>
  The \<open>while retries < 3\<close> loop of \<open>generateVideo\<close>. Each attempt sends its request;
  any error counts as a retry. \<open>Inr None\<close> is the loop ending with \<open>videoData\<close>
  unassigned.
\<close>

function video_retry_loop ::
  "lambda_env \<Rightarrow> jsstring \<Rightarrow> nat \<Rightarrow> lambda_world \<Rightarrow> (jsstring + bytes option) \<times> lambda_world"
where
  "video_retry_loop env prompt retries w =
     (if retries < 3 then
        let req = video_request env prompt w;
            w1 = after_video_call req w
        in case invokeDiffusion env (bedrock_calls w) req of
             ModelOutput d \<Rightarrow> (Inr (Some d), w1)
           | RateLimitError e \<Rightarrow>
               if retries + 1 \<ge> 3 then (Inl e, w1)
               else video_retry_loop env prompt (retries + 1)
                      (sleep (exponentialBackoff env (retries + 1)) w1)
           | OtherError e \<Rightarrow>
               if retries + 1 \<ge> 3 then (Inl e, w1)
               else video_retry_loop env prompt (retries + 1)
                      (sleep (exponentialBackoff env (retries + 1)) w1)
      else (Inr None, w))"
  by pat_completeness auto
termination
  by (relation "measure (\<lambda>(env, prompt, retries, w). 3 - retries)") auto

declare video_retry_loop.simps [simp del]

definition video_s3Key :: "jsstring \<Rightarrow> jsstring \<Rightarrow> jsstring" where
  "video_s3Key userId projectId =
     asc ''users/'' @ userId @ asc ''/projects/'' @ projectId @ asc ''/videos/video_0.mp4''"

text \<open>
  \<open>generateVideo(prompt, projectId)\<close>, with the free \<open>userId\<close> as a parameter.
  \<open>extractDuration\<close> receives \<open>None\<close> when \<open>videoData\<close> was never assigned.
\<close>

definition generateVideo ::
  "lambda_env \<Rightarrow> jsstring \<Rightarrow> jsstring \<Rightarrow> jsstring \<Rightarrow> lambda_world \<Rightarrow>
     (jsstring + video_asset) \<times> lambda_world"
where
  "generateVideo env userId prompt projectId w =
     (case video_retry_loop env prompt 0 w of
        (Inl e, w1) \<Rightarrow> (Inl e, w1)
      | (Inr videoData, w1) \<Rightarrow>
          let s3Key = video_s3Key userId projectId;
              w2 = putObject s3Key videoData w1;
              videoUrl = generatePresignedUrl env s3Key 3600;
              (assetId, w3) = generateUUID env w2
          in (Inr \<lparr>vid_assetId = assetId, vid_s3Key = s3Key, vid_s3Url = videoUrl,
                   vid_duration = extractDuration env videoData, vid_format = asc ''mp4''\<rparr>, w3))"

subsubsection \<open>Text generator\<close>

record platform_constraints =
  maxCaptionLength :: nat
  minHashtags :: nat
  maxHashtags :: nat
  maxTokens :: nat

definition getPlatformConstraints :: "platform \<Rightarrow> platform_constraints" where
  "getPlatformConstraints p =
     (case p of
        Instagram \<Rightarrow> \<lparr>maxCaptionLength = 2200, minHashtags = 5, maxHashtags = 10, maxTokens = 1000\<rparr>
      | LinkedIn \<Rightarrow> \<lparr>maxCaptionLength = 3000, minHashtags = 3, maxHashtags = 5, maxTokens = 1500\<rparr>)"

definition buildCaptionPrompt :: "jsstring \<Rightarrow> platform \<Rightarrow> jsstring" where
  "buildCaptionPrompt userPrompt p =
     (case p of
        Instagram \<Rightarrow>
          asc ''Generate 3 engaging Instagram captions for the following '' @
          asc ''marketing concept: '' @ [0x0022] @ userPrompt @
          [0x0022] @ asc ''. '' @ [0x000A] @
          asc ''            Each caption should be under 2200 characters, '' @
          asc ''use emojis appropriately, and be optimized for Instagram '' @
          asc ''engagement.'' @ [0x000A] @
          asc ''            Format: Return 3 captions separated by '' @ [0x0022] @
          asc ''---'' @ [0x0022]
      | LinkedIn \<Rightarrow>
          asc ''Generate 3 professional LinkedIn captions for the following '' @
          asc ''marketing concept: '' @ [0x0022] @ userPrompt @
          [0x0022] @ asc ''.'' @ [0x000A] @
          asc ''            Each caption should be under 3000 characters, '' @
          asc ''maintain a professional tone, and include a call-to-action.'' @
          [0x000A] @ asc ''            Format: Return 3 captions separated by '' @
          [0x0022] @ asc ''---'' @ [0x0022])"

definition buildHashtagPrompt :: "jsstring \<Rightarrow> platform \<Rightarrow> jsstring" where
  "buildHashtagPrompt userPrompt p =
     (case p of
        Instagram \<Rightarrow>
          asc ''Generate 5-10 relevant Instagram hashtags for: '' @ [0x0022] @ userPrompt @
          [0x0022] @ asc ''.'' @ [0x000A] @
          asc ''            Include a mix of popular and niche hashtags. '' @
          asc ''Format: Return hashtags separated by spaces, each starting '' @
          asc ''with #''
      | LinkedIn \<Rightarrow>
          asc ''Generate 3-5 professional LinkedIn hashtags for: '' @ [0x0022] @ userPrompt @
          [0x0022] @ asc ''.'' @ [0x000A] @
          asc ''            Focus on industry-relevant and professional '' @
          asc ''hashtags. Format: Return hashtags separated by spaces, each '' @
          asc ''starting with #'')"

text \<open>What \<open>callClaude\<close> returns: the text, the error it gave up on, or nothing when the
  loop ends without returning.\<close>

datatype claude_result = ClaudeText jsstring | ClaudeError jsstring | ClaudeUndefined

function claude_retry_loop ::
  "lambda_env \<Rightarrow> claude_request \<Rightarrow> nat \<Rightarrow> lambda_world \<Rightarrow> claude_result \<times> lambda_world"
where
  "claude_retry_loop env req retries w =
     (if retries < 3 then
        let w1 = w\<lparr>bedrock_calls := bedrock_calls w + 1\<rparr> in
        case invokeClaude env (bedrock_calls w) req of
          ModelOutput t \<Rightarrow> (ClaudeText t, w1)
        | RateLimitError e \<Rightarrow>
            if retries + 1 \<ge> 3 then (ClaudeError e, w1)
            else claude_retry_loop env req (retries + 1)
                   (sleep (exponentialBackoff env (retries + 1)) w1)
        | OtherError e \<Rightarrow>
            if retries + 1 \<ge> 3 then (ClaudeError e, w1)
            else claude_retry_loop env req (retries + 1)
                   (sleep (exponentialBackoff env (retries + 1)) w1)
      else (ClaudeUndefined, w))"
  by pat_completeness auto
termination
  by (relation "measure (\<lambda>(env, req, retries, w). 3 - retries)") auto

declare claude_retry_loop.simps [simp del]

definition callClaude ::
  "lambda_env \<Rightarrow> jsstring \<Rightarrow> platform \<Rightarrow> lambda_world \<Rightarrow> claude_result \<times> lambda_world"
where
  "callClaude env prompt p w =
     (let constraints = getPlatformConstraints p
      in claude_retry_loop env
           \<lparr>claude_content = prompt, claude_max_tokens = maxTokens constraints\<rparr> 0 w)"

text \<open>\<open>text.split()\<close>: the maximal runs of characters that are not white space.\<close>

fun split_words :: "jsstring \<Rightarrow> jsstring \<Rightarrow> jsstring list" where
  "split_words cur [] = (if cur = [] then [] else [cur])"
| "split_words cur (c # cs) =
     (if isWhiteSpace c then (if cur = [] then split_words [] cs else cur # split_words [] cs)
      else split_words (cur @ [c]) cs)"

definition split :: "jsstring \<Rightarrow> jsstring list" where
  "split t = split_words [] t"

definition startsWith :: "jsstring \<Rightarrow> jsstring \<Rightarrow> bool" where
  "startsWith word pre \<longleftrightarrow> take (length pre) word = pre"

definition parseHashtags :: "jsstring \<Rightarrow> jsstring list" where
  "parseHashtags t = filter (\<lambda>word. startsWith word (asc ''#'')) (split t)"

text \<open>\<open>d[k] = v\<close> on a dictionary kept as an association list in insertion order.\<close>

fun dict_set :: "'k \<Rightarrow> 'v \<Rightarrow> ('k \<times> 'v) list \<Rightarrow> ('k \<times> 'v) list" where
  "dict_set k v [] = [(k, v)]"
| "dict_set k v (kv # kvs) = (if fst kv = k then (k, v) # kvs else kv # dict_set k v kvs)"

record text_output =
  captions :: "(platform \<times> claude_result) list"
  hashtags :: "(platform \<times> jsstring list) list"

text \<open>
  The loop of \<open>generateText\<close>. \<open>parseHashtags\<close> splits its argument, which fails when
  \<open>callClaude\<close> returned an error or nothing instead of a text: the function then ends
  with that failure (\<open>Inl\<close>).
\<close>

fun text_for_platforms ::
  "lambda_env \<Rightarrow> jsstring \<Rightarrow> platform list \<Rightarrow> text_output \<Rightarrow> lambda_world \<Rightarrow>
     (claude_result + text_output) \<times> lambda_world"
where
  "text_for_platforms env prompt [] out w = (Inr out, w)"
| "text_for_platforms env prompt (p # ps) out w =
     (let captionPrompt = buildCaptionPrompt prompt p;
          (captionResponse, w1) = callClaude env captionPrompt p w;
          out1 = out\<lparr>captions := dict_set p captionResponse (captions out)\<rparr>;
          hashtagPrompt = buildHashtagPrompt prompt p;
          (hashtagResponse, w2) = callClaude env hashtagPrompt p w1
      in case hashtagResponse of
           ClaudeText t \<Rightarrow>
             text_for_platforms env prompt ps
               (out1\<lparr>hashtags := dict_set p (parseHashtags t) (hashtags out1)\<rparr>) w2
         | ClaudeError e \<Rightarrow> (Inl (ClaudeError e), w2)
         | ClaudeUndefined \<Rightarrow> (Inl ClaudeUndefined, w2))"

definition generateText ::
  "lambda_env \<Rightarrow> jsstring \<Rightarrow> platform list \<Rightarrow> lambda_world \<Rightarrow>
     (claude_result + text_output) \<times> lambda_world"
where
  "generateText env prompt ps w = text_for_platforms env prompt ps \<lparr>captions = [], hashtags = []\<rparr> w"

section \<open>The Bedrock service adapter in simulation mode\<close>

text \<open>\<open>topic.replace(/\s+/g, '')\<close>: every run of white space is deleted.\<close>

definition replace_whitespace :: "jsstring \<Rightarrow> jsstring" where
  "replace_whitespace t = filter (\<lambda>c. \<not> isWhiteSpace c) t"

text \<open>
  \<open>generateMarketingCopy\<close>. The function first awaits a timer of 2000 ms and then builds
  the response from its template. The state threaded through is the list of delays the
  function has awaited.
\<close>

definition generateMarketingCopy :: "jsstring \<Rightarrow> jsstring \<Rightarrow> nat list \<Rightarrow> jsstring \<times> nat list" where
  "generateMarketingCopy topic businessType timers =
     (let timers1 = timers @ [2000];
          response =
       [0xD83D, 0xDCE2] @ asc '' Namaste '' @
       businessType @
       asc '' Owner! '' @ [0xD83D, 0xDE80, 0x000A, 0x000A] @
       asc ''Here is your campaign for '' @
       topic @
       asc '':'' @ [0x000A, 0x000A, 0x2728] @ asc '' The Hook:'' @ [0x000A, 0x0022] @
       asc ''Arrey wah! '' @
       topic @
       asc '' is here! '' @ [0xD83D, 0xDE32] @ asc '' Don'' @ [0x0027] @
       asc ''t miss out!'' @ [0x0022, 0x000A, 0x000A, 0xD83C, 0xDF81] @
       asc '' The Offer:'' @ [0x000A, 0x0022] @ asc ''Flat 20% OFF only for today! '' @
       [0xD83D, 0xDECD, 0xFE0F, 0x2728, 0x0022, 0x000A, 0x000A, 0xD83D, 0xDD25] @
       asc '' Call to Action:'' @ [0x000A, 0x0022] @
       asc ''Jaldi aao! Visit us before stocks run out! '' @
       [0xD83C, 0xDFC3, 0x200D, 0x2642, 0xFE0F, 0xD83D, 0xDCA8, 0x0022, 0x000A, 0x000A] @
       asc ''---'' @ [0x000A, 0x000A, 0xD83D, 0xDCA1] @
       asc '' Pro Tip: Share this on WhatsApp and Instagram for maximum '' @
       asc ''reach in your local community!'' @ [0x000A, 0x000A] @ asc ''#'' @
       replace_whitespace topic @
       asc '' #IndianBusiness #LocalShop #SpecialOffer''
      in (response, timers1))"

section \<open>The result aggregator of the specification\<close>

text \<open>
  Modelled from the spec: the task outcomes that the aggregator receives. No source file
  declares them; the specification has a task outcome be "either a populated list of
  Assets for that component, or a failure tagged with the originating component", and a
  generation error carry a component, a code, a message and a timestamp. The component
  of a failure is the slot of \<open>outcomes\<close> it sits in.
\<close>

record task_failure =
  fail_code :: jsstring
  fail_message :: jsstring
  fail_timestamp :: nat

datatype 'a task_outcome = Succeeded "'a list" | FailedWith task_failure

record 'a outcomes =
  image_outcome :: "'a task_outcome"
  video_outcome :: "'a task_outcome"
  text_outcome :: "'a task_outcome"

record 'a aggregate =
  agg_assets :: "'a list"
  agg_status :: status
  agg_errors :: "generation_error list"

text \<open>Modelled from the spec: whether a task outcome is a success.\<close>

definition succeeded :: "'a task_outcome \<Rightarrow> bool" where
  "succeeded t = (case t of Succeeded xs \<Rightarrow> True | FailedWith f \<Rightarrow> False)"

text \<open>Modelled from the spec: "failed components contribute nothing" to the assets.\<close>

definition outcome_assets :: "'a task_outcome \<Rightarrow> 'a list" where
  "outcome_assets t = (case t of Succeeded xs \<Rightarrow> xs | FailedWith f \<Rightarrow> [])"

text \<open>Modelled from the spec: the generation error of a failed component, none for a
  succeeded one.\<close>

definition outcome_errors :: "component \<Rightarrow> 'a task_outcome \<Rightarrow> generation_error list" where
  "outcome_errors c t =
     (case t of
        Succeeded xs \<Rightarrow> []
      | FailedWith f \<Rightarrow> [\<lparr>err_component = c, errorCode = fail_code f,
                           errorMessage = fail_message f, err_timestamp = fail_timestamp f\<rparr>])"

text \<open>Modelled from the spec: the outcome of a component in an outcome set.\<close>

definition outcome_of :: "'a outcomes \<Rightarrow> component \<Rightarrow> 'a task_outcome" where
  "outcome_of os c = (case c of Image \<Rightarrow> image_outcome os | Video \<Rightarrow> video_outcome os
                              | Text \<Rightarrow> text_outcome os)"

text \<open>
  Modelled from the spec: \<open>handleContentGeneration\<close> calls \<open>determineStatus\<close> and
  \<open>collectErrors\<close>, and no source file defines them. \<open>combine\<close> is the Result Aggregator
  of the specification: it merges the assets of the succeeded components, sets the
  status to \<open>complete\<close> when all three succeeded, to \<open>failed\<close> when all three failed and
  to \<open>partial\<close> otherwise, and lists one error per failed component in the order image,
  video, text.
\<close>

definition combine :: "'a outcomes \<Rightarrow> 'a aggregate" where
  "combine os =
     \<lparr>agg_assets = outcome_assets (image_outcome os) @ outcome_assets (video_outcome os) @
                    outcome_assets (text_outcome os),
      agg_status =
        (if succeeded (image_outcome os) \<and> succeeded (video_outcome os) \<and> succeeded (text_outcome os)
         then Complete
         else if \<not> succeeded (image_outcome os) \<and> \<not> succeeded (video_outcome os) \<and>
                 \<not> succeeded (text_outcome os)
         then Failed
         else Partial),
      agg_errors = outcome_errors Image (image_outcome os) @ outcome_errors Video (video_outcome os) @
                   outcome_errors Text (text_outcome os)\<rparr>"

text \<open>
  Modelled from the spec: \<open>awaitAll\<close> is not defined in the sources; the orchestrator of
  the specification passes on "whatever outcomes are available (completed or
  timed-out-as-failed)". \<open>gather\<close> receives the outcomes in the order in which the
  tasks completed before the deadline; a component with no outcome by then is failed
  with the timeout failure.
\<close>

definition gather :: "task_failure \<Rightarrow> (component \<times> 'a task_outcome) list \<Rightarrow> 'a outcomes" where
  "gather timeout arrived =
     \<lparr>image_outcome = or_default (map_of arrived Image) (FailedWith timeout),
      video_outcome = or_default (map_of arrived Video) (FailedWith timeout),
      text_outcome = or_default (map_of arrived Text) (FailedWith timeout)\<rparr>"

text \<open>
  Modelled from the spec: the aggregation as a step of the orchestrator, which has the
  clock and the table in its world. The specification's aggregator does no I/O: the step
  hands the world on as it found it, and the timestamp of an error is the one its
  failure carries, not a reading of the clock.
\<close>

definition aggregate_step ::
  "'a outcomes \<Rightarrow> orchestrator_world \<Rightarrow> 'a aggregate \<times> orchestrator_world" where
  "aggregate_step os w = (combine os, w)"

section \<open>Concrete collaborators and inputs\<close>

text \<open>
  An environment for the orchestrator in which no generator delivers anything, an empty
  world, an operation that is rate-limited twice before it succeeds, and requests with
  a prompt of two and of eleven characters.
\<close>

definition demo_env :: orchestrator_env where
  "demo_env =
     \<lparr>uuid_of = (\<lambda>n. asc ''proj-'' @ show_nat n),
      awaitAll = (\<lambda>ps t w. (\<lparr>res_images = None, res_videos = None, res_captions = None,
                                res_hashtags = None\<rparr>, w)),
      determineStatus = (\<lambda>r. Failed),
      collectErrors = (\<lambda>r. [])\<rparr>"

definition demo_world :: orchestrator_world where
  "demo_world = \<lparr>clock = 0, uuids_drawn = 0, table = [], invoked = []\<rparr>"

definition flaky_operation :: "nat \<Rightarrow> jsstring failure + jsstring" where
  "flaky_operation n = (if n < 2 then Inl (RetryableError (asc ''429'')) else Inr (asc ''image''))"

text \<open>An operation that is rate-limited on every call; the error carries the call's number.\<close>

definition always_throttled :: "nat \<Rightarrow> nat failure + unit" where
  "always_throttled n = Inl (RetryableError n)"

text \<open>A network that answers every request with a generated copy, and one that is down.\<close>

definition demo_fetch :: "fetch_request \<Rightarrow> http_response completion" where
  "demo_fetch r =
     Resolves \<lparr>ok = True, json = Resolves \<lparr>data_error = None, data_result = Some (asc ''copy'')\<rparr>\<rparr>"

definition offline_fetch :: "fetch_request \<Rightarrow> http_response completion" where
  "offline_fetch r = Rejects OtherValue"

definition short_request :: generation_request where
  "short_request = \<lparr>req_prompt = asc ''ab'', req_userId = asc ''user-123'', req_platforms = [Instagram]\<rparr>"

definition valid_request :: generation_request where
  "valid_request =
     \<lparr>req_prompt = asc ''Diwali Sale'', req_userId = asc ''user-123'', req_platforms = [Instagram]\<rparr>"

text \<open>The response that \<open>README.md\<close> documents for the topic \<open>Diwali Sale\<close> and the
  business type \<open>Retail\<close>.\<close>

definition readme_expected_response :: jsstring where
  "readme_expected_response =
     [0xD83D, 0xDCE2] @ asc '' Namaste Retail Owner! '' @
     [0xD83D, 0xDE80, 0x000A, 0x000A] @ asc ''Here is your campaign for Diwali Sale:'' @
     [0x000A, 0x000A, 0x2728] @ asc '' The Hook:'' @ [0x000A, 0x0022] @
     asc ''Arrey wah! Diwali Sale is here! '' @ [0xD83D, 0xDE32] @ asc '' Don'' @
     [0x0027] @ asc ''t miss out!'' @ [0x0022, 0x000A, 0x000A, 0xD83C, 0xDF81] @
     asc '' The Offer:'' @ [0x000A, 0x0022] @ asc ''Flat 20% OFF only for today! '' @
     [0xD83D, 0xDECD, 0xFE0F, 0x2728, 0x0022, 0x000A, 0x000A, 0xD83D, 0xDD25] @
     asc '' Call to Action:'' @ [0x000A, 0x0022] @
     asc ''Jaldi aao! Visit us before stocks run out! '' @
     [0xD83C, 0xDFC3, 0x200D, 0x2642, 0xFE0F, 0xD83D, 0xDCA8, 0x0022, 0x000A, 0x000A] @
     asc ''---'' @ [0x000A, 0x000A, 0xD83D, 0xDCA1] @
     asc '' Pro Tip: Share this on WhatsApp and Instagram for maximum '' @
     asc ''reach in your local community!'' @ [0x000A, 0x000A] @
     asc ''#DiwaliSale #IndianBusiness #LocalShop #SpecialOffer''"

text \<open>
  Inputs for \<open>handlePartialFailure\<close>: only the video failed; every component failed.
\<close>

definition video_failed :: "nat partial_results" where
  "video_failed =
     \<lparr>pr_images = \<lparr>success = True, data = [1]\<rparr>, pr_videos = \<lparr>success = False, data = []\<rparr>,
      pr_text = \<lparr>success = True, data = [3]\<rparr>, pr_error = None\<rparr>"

definition all_failed :: "nat partial_results" where
  "all_failed =
     \<lparr>pr_images = \<lparr>success = False, data = []\<rparr>, pr_videos = \<lparr>success = False, data = []\<rparr>,
      pr_text = \<lparr>success = False, data = []\<rparr>, pr_error = Some (asc ''Service unavailable'')\<rparr>"

text \<open>
  Inputs for \<open>gather\<close> and \<open>combine\<close>: the failure recorded at the deadline and a
  rate-limit failure; one delivery of three outcomes in two completion orders; two
  completion orders of an image and a text failure with the video never arriving.
\<close>

definition timeout_failure :: task_failure where
  "timeout_failure =
     \<lparr>fail_code = asc ''TIMEOUT_ERROR'', fail_message = asc ''deadline elapsed'', fail_timestamp = 30000\<rparr>"

definition throttled :: task_failure where
  "throttled =
     \<lparr>fail_code = asc ''RATE_LIMIT_EXCEEDED'', fail_message = asc ''throttled'', fail_timestamp = 1200\<rparr>"

definition delivered :: "(component \<times> nat task_outcome) list" where
  "delivered = [(Video, Succeeded [7]), (Image, FailedWith throttled), (Text, Succeeded [8, 9])]"

definition delivered_reordered :: "(component \<times> nat task_outcome) list" where
  "delivered_reordered = [(Text, Succeeded [8, 9]), (Video, Succeeded [7]), (Image, FailedWith throttled)]"

definition text_first :: "(component \<times> nat task_outcome) list" where
  "text_first = [(Text, FailedWith throttled), (Image, FailedWith throttled)]"

definition image_first :: "(component \<times> nat task_outcome) list" where
  "image_first = [(Image, FailedWith throttled), (Text, FailedWith throttled)]"

text \<open>
  Collaborators for the Lambdas: every model call succeeds at once, Claude answers with
  the single hashtag \<open>#sale\<close>, and the returned video is twelve seconds long.
\<close>

definition demo_lambda_env :: lambda_env where
  "demo_lambda_env =
     \<lparr>invokeTitan = (\<lambda>n r. ModelOutput [0x89, 0x50]),
      invokeDiffusion = (\<lambda>n r. ModelOutput [0x00]),
      invokeClaude = (\<lambda>n r. ModelOutput (asc ''#sale'')),
      exponentialBackoff = (\<lambda>r. 2 ^ r * 100),
      resizeImage = (\<lambda>d maxWidth. d),
      generatePresignedUrl = (\<lambda>key expiresIn. asc ''https://s3/'' @ key),
      extractDuration = (\<lambda>d. 12),
      id_of = (\<lambda>n. asc ''asset-'' @ show_nat n),
      entropy = (\<lambda>n. n)\<rparr>"

text \<open>
  A Claude that tells the two kinds of prompt apart: it answers a prompt that asks for
  hashtags with a sentence carrying two tags, and any other prompt with a caption.
\<close>

definition chatty_env :: lambda_env where
  "chatty_env =
     demo_lambda_env\<lparr>invokeClaude :=
       (\<lambda>n r. if startsWith (claude_content r) (asc ''Generate 3-5 professional LinkedIn hashtags'') \<or>
                  startsWith (claude_content r) (asc ''Generate 5-10 relevant Instagram hashtags'')
               then ModelOutput (asc ''get the #sale #deal'')
               else ModelOutput (asc ''Big savings!''))\<rparr>"

text \<open>A video model that returns one byte per requested second, the duration being the
  number of bytes.\<close>

definition faithful_video_env :: lambda_env where
  "faithful_video_env =
     demo_lambda_env\<lparr>invokeDiffusion := (\<lambda>n r. ModelOutput (replicate (sd_video_length r) 0x00)),
                     extractDuration := (\<lambda>d. case d of Some bs \<Rightarrow> length bs | None \<Rightarrow> 0)\<rparr>"

definition demo_lambda_world :: lambda_world where
  "demo_lambda_world =
     \<lparr>bedrock_calls = 0, ids_drawn = 0, random_drawn = 0, bucket = [], video_requests = [],
      slept = [], logged = []\<rparr>"

text \<open>
  The response of \<open>generateMarketingCopy\<close> read as two parts: the last line, which
  carries the hashtags, and everything before it.
\<close>

definition hashtag_line :: "jsstring \<Rightarrow> jsstring" where
  "hashtag_line topic =
     asc ''#'' @ replace_whitespace topic @ asc '' #IndianBusiness #LocalShop #SpecialOffer''"

definition demo_response :: jsstring where
  "demo_response = fst (generateMarketingCopy (asc ''Diwali Sale'') (asc ''Retail'') [])"

text \<open>
  What one run of a generator produced, read off its result: the hashtag sets, the
  duration of the video, the image keys. A run that ended in an error produced none.
\<close>

definition generated_hashtags ::
  "lambda_env \<Rightarrow> jsstring \<Rightarrow> platform list \<Rightarrow> lambda_world \<Rightarrow> (platform \<times> jsstring list) list" where
  "generated_hashtags env prompt ps w =
     (case fst (generateText env prompt ps w) of Inl e \<Rightarrow> [] | Inr out \<Rightarrow> hashtags out)"

definition generated_duration ::
  "lambda_env \<Rightarrow> jsstring \<Rightarrow> jsstring \<Rightarrow> jsstring \<Rightarrow> lambda_world \<Rightarrow> nat option" where
  "generated_duration env userId prompt projectId w =
     (case fst (generateVideo env userId prompt projectId w) of
        Inl e \<Rightarrow> None | Inr v \<Rightarrow> Some (vid_duration v))"

definition generated_image_keys ::
  "lambda_env \<Rightarrow> jsstring \<Rightarrow> jsstring \<Rightarrow> jsstring \<Rightarrow> nat \<Rightarrow> platform list \<Rightarrow> lambda_world \<Rightarrow>
     jsstring list" where
  "generated_image_keys env userId prompt projectId count ps w =
     (case fst (generateImages env userId prompt projectId count ps w) of
        Inl e \<Rightarrow> [] | Inr images \<Rightarrow> map img_s3Key images)"

section \<open>Prompt validation in the dashboard\<close>

lemma trim_ab: "trim (asc ''ab'') = asc ''ab''"
  by (simp add: trim_def asc_def isWhiteSpace_def)

text \<open>
  C1. The claim asks that a prompt shorter than three characters is rejected. On the
  two-character topic \<open>ab\<close> the handler reports no error and sends the generation request:
  its guard only refuses a topic that is blank after trimming.
\<close>

theorem handleGenerate_accepts_two_chars:
  "length (asc ''ab'') = 2 \<and>
   snd (handleGenerate demo_fetch (initial_page (asc ''ab''))) =
     [\<lparr>url = asc ''/api/generate'', http_method = asc ''POST'',
       body_topic = asc ''ab'', body_businessType = asc ''Retail''\<rparr>] \<and>
   st_error (fst (handleGenerate demo_fetch (initial_page (asc ''ab'')))) = [] \<and>
   st_result (fst (handleGenerate demo_fetch (initial_page (asc ''ab'')))) = Some (asc ''copy'')"
  by (simp add: handleGenerate_def initial_page_def trim_ab Let_def demo_fetch_def)
     (simp add: asc_def)

text \<open>A topic of three blanks has the required length, and the handler refuses it.\<close>

lemma handleGenerate_refuses_blanks:
  "length (asc ''   '') = 3 \<and>
   handleGenerate demo_fetch (initial_page (asc ''   '')) =
     ((initial_page (asc ''   ''))\<lparr>st_error := asc ''Please enter a campaign topic''\<rparr>, [])"
  by (simp add: handleGenerate_def initial_page_def trim_def asc_def isWhiteSpace_def)

lemma handleGenerate_sends_iff: "snd (handleGenerate fetch s) = [] \<longleftrightarrow> trim (st_topic s) = []"
  by (simp add: handleGenerate_def Let_def)

text \<open>
  The orchestrator of the design document does apply the length rule: it returns its
  error exactly for a prompt shorter than three characters.
\<close>

lemma handleContentGeneration_rejects_iff:
  "(\<exists>m. fst (handleContentGeneration env request w) = Inl m) \<longleftrightarrow> length (req_prompt request) < 3"
  by (simp add: handleContentGeneration_def Let_def split: prod.splits)

section \<open>Validation failure and side effects\<close>

text \<open>
  C6. A request whose prompt fails validation, such as a prompt of two characters, must
  end with the validation error and cause nothing else. The dashboard does not do so:
  for the topic \<open>ab\<close> it sets no error, sends the generation request to
  \<open>/api/generate\<close> and shows the generated copy. The orchestrator of the design document
  refuses the same prompt and leaves its world untouched.
\<close>

theorem dashboard_sends_short_prompt:
  "length (asc ''ab'') < 3 \<and>
   handleGenerate demo_fetch (initial_page (asc ''ab'')) =
     ((initial_page (asc ''ab''))\<lparr>st_result := Some (asc ''copy'')\<rparr>,
      [\<lparr>url = asc ''/api/generate'', http_method = asc ''POST'',
        body_topic = asc ''ab'', body_businessType = asc ''Retail''\<rparr>]) \<and>
   handleContentGeneration demo_env short_request demo_world =
     (Inl (asc ''Prompt too short''), demo_world)"
  by (simp add: handleGenerate_def initial_page_def trim_ab Let_def demo_fetch_def
      handleContentGeneration_def short_request_def)
     (simp add: asc_def)

text \<open>
  Where a guard does refuse the input, nothing else happens: the orchestrator returns
  its error for a prompt shorter than three characters with the world as it was (no
  identifier drawn, no project written, no generator invoked), and the dashboard sends
  no request for a topic that is blank after trimming.
\<close>

lemma refused_input_no_side_effects:
  "(length (req_prompt request) < 3 \<longrightarrow>
      handleContentGeneration env request w = (Inl (asc ''Prompt too short''), w)) \<and>
   (trim (st_topic s) = [] \<longrightarrow>
      handleGenerate fetch s = (s\<lparr>st_error := asc ''Please enter a campaign topic''\<rparr>, []))"
  by (simp add: handleContentGeneration_def handleGenerate_def)

lemma blank_topic_sends_nothing:
  "trim (st_topic (initial_page (asc ''  ''))) = [] \<and>
   snd (handleGenerate offline_fetch (initial_page (asc ''  ''))) = []"
  by (simp add: handleGenerate_def asc_def initial_page_def trim_def isWhiteSpace_def)

text \<open>
  A prompt of valid length does change the world: a project is written and finalised,
  and the three generators are invoked in the order image, video, text.
\<close>

lemma handleContentGeneration_valid_prompt:
  "map fst (table (snd (handleContentGeneration demo_env valid_request demo_world))) = [asc ''proj-0''] \<and>
   map (item_status \<circ> snd) (table (snd (handleContentGeneration demo_env valid_request demo_world)))
     = [Failed] \<and>
   invoked (snd (handleContentGeneration demo_env valid_request demo_world)) =
     [ImageGeneratorLambda (asc ''Diwali Sale'') (asc ''proj-0'') 3 [Instagram],
      VideoGeneratorLambda (asc ''Diwali Sale'') (asc ''proj-0''),
      TextGeneratorLambda (asc ''Diwali Sale'') [Instagram]]"
  by (simp add: handleContentGeneration_def demo_env_def demo_world_def valid_request_def
      putItem_def updateItem_def or_default_def Let_def show_nat.simps)
     (simp add: asc_def)

section \<open>Retry with backoff\<close>

lemma three_attempts: "[0..<3] = [0, 1, 2]"
  by (simp add: upt_rec)

text \<open>
  C3, as the code has it. With the default of three attempts the loop makes between one
  and three calls. It stops at the first call that does not raise a retryable error and
  passes that call's outcome on unchanged; after three retryable errors it rethrows the
  third one as it was raised. Before the second call it sleeps 100 ms and before the
  third 200 ms; no other delay occurs.
\<close>

theorem retryWithBackoff_three_attempts:
  "\<exists>n. 1 \<le> n \<and> n \<le> 3 \<and>
     retryWithBackoff operation 3 fresh_retry_world =
       (passed_on (operation (n - 1)), \<lparr>attempts_made = n, sleeps = take (n - 1) [100, 200]\<rparr>) \<and>
     (\<forall>k < n - 1. is_retryable (operation k)) \<and>
     (n < 3 \<longrightarrow> \<not> is_retryable (operation (n - 1)))"
proof (cases "is_retryable (operation 0)")
  case False
  then have "retryWithBackoff operation 3 fresh_retry_world =
      (passed_on (operation 0), \<lparr>attempts_made = 1, sleeps = []\<rparr>)"
    by (auto simp: retryWithBackoff_def three_attempts fresh_retry_world_def is_retryable_def
        passed_on_def split: sum.splits failure.splits)
  with False show ?thesis by (intro exI[of _ 1]) simp
next
  case r0: True
  show ?thesis
  proof (cases "is_retryable (operation 1)")
    case False
    with r0 have "retryWithBackoff operation 3 fresh_retry_world =
        (passed_on (operation 1), \<lparr>attempts_made = 2, sleeps = [100]\<rparr>)"
      by (auto simp: retryWithBackoff_def three_attempts fresh_retry_world_def is_retryable_def
          passed_on_def split: sum.splits failure.splits)
    with r0 False show ?thesis by (intro exI[of _ 2]) simp
  next
    case r1: True
    with r0 have "retryWithBackoff operation 3 fresh_retry_world =
        (passed_on (operation 2), \<lparr>attempts_made = 3, sleeps = [100, 200]\<rparr>)"
      by (auto simp: retryWithBackoff_def three_attempts fresh_retry_world_def is_retryable_def
          passed_on_def Let_def numeral_2_eq_2[symmetric] numeral_3_eq_3[symmetric]
          split: sum.splits failure.splits)
    moreover have "\<forall>k<2. is_retryable (operation k)"
      using r0 r1 by (auto simp: less_Suc_eq numeral_2_eq_2)
    ultimately show ?thesis by (intro exI[of _ 3]) simp
  qed
qed

theorem retryWithBackoff_three_attempts_witness:
  "retryWithBackoff flaky_operation 3 fresh_retry_world
     = (Inr (Some (asc ''image'')), \<lparr>attempts_made = 3, sleeps = [100, 200]\<rparr>) \<and>
   is_retryable (flaky_operation 0) \<and> is_retryable (flaky_operation 1) \<and>
   \<not> is_retryable (flaky_operation 2)"
proof -
  have r: "\<And>n. 1 \<le> n \<Longrightarrow> n < 3 \<Longrightarrow> is_retryable (flaky_operation (n - 1))"
    by (auto simp: is_retryable_def flaky_operation_def)
  obtain n where n: "1 \<le> n" "n \<le> 3"
    "retryWithBackoff flaky_operation 3 fresh_retry_world =
       (passed_on (flaky_operation (n - 1)), \<lparr>attempts_made = n, sleeps = take (n - 1) [100, 200]\<rparr>)"
    "n < 3 \<longrightarrow> \<not> is_retryable (flaky_operation (n - 1))"
    using retryWithBackoff_three_attempts [of flaky_operation] by blast
  from n(1,2,4) r have "n = 3" by (cases "n < 3") auto
  with n(3) have "retryWithBackoff flaky_operation 3 fresh_retry_world =
      (Inr (Some (asc ''image'')), \<lparr>attempts_made = 3, sleeps = [100, 200]\<rparr>)"
    by (simp add: passed_on_def flaky_operation_def)
  then show ?thesis by (auto simp: is_retryable_def flaky_operation_def)
qed

text \<open>
  An operation that fails with a retryable error on every call: the loop sleeps 100 ms
  and 200 ms, never 400 ms, and what it throws after the third call is the third error
  itself, carrying no mark of exhaustion.
\<close>

theorem retryWithBackoff_exhausted_counterexample:
  "retryWithBackoff always_throttled 3 fresh_retry_world
     = (Inl (RetryableError 2), \<lparr>attempts_made = 3, sleeps = [100, 200]\<rparr>) \<and>
   always_throttled 2 = Inl (RetryableError 2)"
  by (simp add: retryWithBackoff_def three_attempts fresh_retry_world_def always_throttled_def)


section \<open>Status of the aggregation\<close>

text \<open>
  \<open>handlePartialFailure\<close> decides by the assets it collected: it reports \<open>partial\<close>
  exactly when the succeeded components delivered at least one asset, and \<open>failed\<close>
  exactly when they delivered none.
\<close>

lemma handlePartialFailure_by_assets:
  "(fr_status (handlePartialFailure results) = Partial \<longleftrightarrow> successfulAssets results \<noteq> []) \<and>
   (fr_status (handlePartialFailure results) = Failed \<longleftrightarrow> successfulAssets results = [])"
  by (auto simp: handlePartialFailure_def)

text \<open>
  C2. The status that \<open>combine\<close> returns is \<open>complete\<close> exactly when all three outcomes
  succeeded, \<open>partial\<close> exactly when at least one succeeded and at least one failed, and
  \<open>failed\<close> exactly when all three failed; when the deadline elapsed before any outcome
  arrived, all three count as failed and the status is \<open>failed\<close>. The partial-failure
  handler of the design document agrees with this rule wherever it applies, that is
  when at least one component failed and every succeeded component delivered an asset.
\<close>

theorem aggregator_status:
  "(agg_status (combine os) = Complete \<longleftrightarrow>
      succeeded (image_outcome os) \<and> succeeded (video_outcome os) \<and> succeeded (text_outcome os)) \<and>
   (agg_status (combine os) = Partial \<longleftrightarrow>
      (succeeded (image_outcome os) \<or> succeeded (video_outcome os) \<or> succeeded (text_outcome os)) \<and>
      (\<not> succeeded (image_outcome os) \<or> \<not> succeeded (video_outcome os) \<or> \<not> succeeded (text_outcome os))) \<and>
   (agg_status (combine os) = Failed \<longleftrightarrow>
      \<not> succeeded (image_outcome os) \<and> \<not> succeeded (video_outcome os) \<and> \<not> succeeded (text_outcome os)) \<and>
   agg_status (combine (gather t ([] :: (component \<times> 'a task_outcome) list))) = Failed \<and>
   ((success (pr_images results) \<longrightarrow> data (pr_images results) \<noteq> []) \<and>
    (success (pr_videos results) \<longrightarrow> data (pr_videos results) \<noteq> []) \<and>
    (success (pr_text results) \<longrightarrow> data (pr_text results) \<noteq> []) \<and>
    \<not> (success (pr_images results) \<and> success (pr_videos results) \<and> success (pr_text results))
      \<longrightarrow>
      (fr_status (handlePartialFailure results) = Complete \<longleftrightarrow>
         success (pr_images results) \<and> success (pr_videos results) \<and> success (pr_text results)) \<and>
      (fr_status (handlePartialFailure results) = Partial \<longleftrightarrow>
         (success (pr_images results) \<or> success (pr_videos results) \<or> success (pr_text results)) \<and>
         (\<not> success (pr_images results) \<or> \<not> success (pr_videos results) \<or>
          \<not> success (pr_text results))) \<and>
      (fr_status (handlePartialFailure results) = Failed \<longleftrightarrow>
         \<not> success (pr_images results) \<and> \<not> success (pr_videos results) \<and>
         \<not> success (pr_text results)))"
proof (intro conjI)
  show "agg_status (combine os) = Complete \<longleftrightarrow>
      succeeded (image_outcome os) \<and> succeeded (video_outcome os) \<and> succeeded (text_outcome os)"
    by (simp add: combine_def)
  show "agg_status (combine os) = Partial \<longleftrightarrow>
      (succeeded (image_outcome os) \<or> succeeded (video_outcome os) \<or> succeeded (text_outcome os)) \<and>
      (\<not> succeeded (image_outcome os) \<or> \<not> succeeded (video_outcome os) \<or> \<not> succeeded (text_outcome os))"
    by (auto simp: combine_def)
  show "agg_status (combine os) = Failed \<longleftrightarrow>
      \<not> succeeded (image_outcome os) \<and> \<not> succeeded (video_outcome os) \<and> \<not> succeeded (text_outcome os)"
    by (auto simp: combine_def)
  show "agg_status (combine (gather t ([] :: (component \<times> 'a task_outcome) list))) = Failed"
    by (simp add: combine_def gather_def or_default_def succeeded_def)
  show "(success (pr_images results) \<longrightarrow> data (pr_images results) \<noteq> []) \<and>
    (success (pr_videos results) \<longrightarrow> data (pr_videos results) \<noteq> []) \<and>
    (success (pr_text results) \<longrightarrow> data (pr_text results) \<noteq> []) \<and>
    \<not> (success (pr_images results) \<and> success (pr_videos results) \<and> success (pr_text results))
      \<longrightarrow>
      (fr_status (handlePartialFailure results) = Complete \<longleftrightarrow>
         success (pr_images results) \<and> success (pr_videos results) \<and> success (pr_text results)) \<and>
      (fr_status (handlePartialFailure results) = Partial \<longleftrightarrow>
         (success (pr_images results) \<or> success (pr_videos results) \<or> success (pr_text results)) \<and>
         (\<not> success (pr_images results) \<or> \<not> success (pr_videos results) \<or>
          \<not> success (pr_text results))) \<and>
      (fr_status (handlePartialFailure results) = Failed \<longleftrightarrow>
         \<not> success (pr_images results) \<and> \<not> success (pr_videos results) \<and>
         \<not> success (pr_text results))"
    by (auto simp: handlePartialFailure_def successfulAssets_def split: if_splits)
qed

theorem aggregator_status_witness:
  "succeeded (video_outcome (gather timeout_failure delivered)) \<and>
   \<not> succeeded (image_outcome (gather timeout_failure delivered)) \<and>
   agg_status (combine (gather timeout_failure delivered)) = Partial \<and>
   success (pr_images video_failed) \<and> data (pr_images video_failed) \<noteq> [] \<and>
   \<not> success (pr_videos video_failed) \<and>
   success (pr_text video_failed) \<and> data (pr_text video_failed) \<noteq> [] \<and>
   fr_status (handlePartialFailure video_failed) = Partial \<and>
   \<not> success (pr_images all_failed) \<and> \<not> success (pr_videos all_failed) \<and>
   \<not> success (pr_text all_failed) \<and>
   fr_status (handlePartialFailure all_failed) = Failed"
proof -
  have flags: "succeeded (video_outcome (gather timeout_failure delivered)) \<and>
      \<not> succeeded (image_outcome (gather timeout_failure delivered))"
    by (simp add: gather_def delivered_def or_default_def succeeded_def)
  with aggregator_status [where os = "gather timeout_failure delivered"]
  have "agg_status (combine (gather timeout_failure delivered)) = Partial" by blast
  moreover have role: "success (pr_images video_failed) \<and> data (pr_images video_failed) \<noteq> [] \<and>
      \<not> success (pr_videos video_failed) \<and>
      success (pr_text video_failed) \<and> data (pr_text video_failed) \<noteq> []"
    by (simp add: video_failed_def)
  moreover from role aggregator_status [where results = video_failed]
  have "fr_status (handlePartialFailure video_failed) = Partial" by blast
  moreover have none: "\<not> success (pr_images all_failed) \<and> \<not> success (pr_videos all_failed) \<and>
      \<not> success (pr_text all_failed)"
    by (simp add: all_failed_def)
  moreover from none aggregator_status [where results = all_failed]
  have "fr_status (handlePartialFailure all_failed) = Failed" by blast
  ultimately show ?thesis using flags by simp
qed

text \<open>The names of the failed components are listed in the order images, videos, text.\<close>

lemma failedComponents_order:
  "failedComponents results =
     map snd (filter (\<lambda>cn. \<not> success (fst cn))
       [(pr_images results, asc ''images''), (pr_videos results, asc ''videos''),
        (pr_text results, asc ''captions and hashtags'')])"
  by (simp add: failedComponents_def)

section \<open>The aggregator's error list\<close>

lemma outcome_errors_component:
  "map err_component (outcome_errors c t) = (if succeeded t then [] else [c])"
  by (cases t) (simp_all add: outcome_errors_def succeeded_def)

lemma outcome_errors_payload:
  "e \<in> set (outcome_errors c t) \<Longrightarrow>
     err_component e = c \<and>
     t = FailedWith \<lparr>fail_code = errorCode e, fail_message = errorMessage e,
                     fail_timestamp = err_timestamp e\<rparr>"
  by (cases t) (auto simp: outcome_errors_def)

lemma gather_order_independent:
  assumes "distinct (map fst xs)" "distinct (map fst ys)" "set xs = set ys"
  shows "gather t xs = gather t ys"
proof -
  have "map_of xs = map_of ys"
    using assms by (simp add: map_of_inject_set)
  then show ?thesis by (simp add: gather_def)
qed

text \<open>
  C5. The error list of \<open>combine\<close> holds one error for each failed component and none
  for a succeeded one, in the order image, video, text; each error carries the code,
  message and timestamp of its component's failure. The list does not depend on the
  order in which the outcomes arrived before the deadline.
\<close>

theorem combine_errors_fixed_order:
  "map err_component (agg_errors (combine os)) =
     filter (\<lambda>c. \<not> succeeded (outcome_of os c)) [Image, Video, Text] \<and>
   (\<forall>e \<in> set (agg_errors (combine os)).
      outcome_of os (err_component e) =
        FailedWith \<lparr>fail_code = errorCode e, fail_message = errorMessage e,
                    fail_timestamp = err_timestamp e\<rparr>) \<and>
   (distinct (map fst xs) \<and> distinct (map fst ys) \<and> set xs = set ys \<longrightarrow>
      agg_errors (combine (gather t xs)) = agg_errors (combine (gather t ys)))"
proof (intro conjI ballI impI)
  show "map err_component (agg_errors (combine os)) =
      filter (\<lambda>c. \<not> succeeded (outcome_of os c)) [Image, Video, Text]"
    by (simp add: combine_def outcome_errors_component outcome_of_def)
next
  fix e assume "e \<in> set (agg_errors (combine os))"
  then consider "e \<in> set (outcome_errors Image (image_outcome os))"
    | "e \<in> set (outcome_errors Video (video_outcome os))"
    | "e \<in> set (outcome_errors Text (text_outcome os))"
    by (auto simp: combine_def)
  then show "outcome_of os (err_component e) =
      FailedWith \<lparr>fail_code = errorCode e, fail_message = errorMessage e,
                  fail_timestamp = err_timestamp e\<rparr>"
    by cases (auto dest!: outcome_errors_payload simp: outcome_of_def)
next
  assume "distinct (map fst xs) \<and> distinct (map fst ys) \<and> set xs = set ys"
  then show "agg_errors (combine (gather t xs)) = agg_errors (combine (gather t ys))"
    using gather_order_independent [of xs ys t] by simp
qed

theorem combine_errors_fixed_order_witness:
  "distinct (map fst text_first) \<and> distinct (map fst image_first) \<and>
   set text_first = set image_first \<and>
   agg_errors (combine (gather timeout_failure text_first)) =
     agg_errors (combine (gather timeout_failure image_first)) \<and>
   map err_component (agg_errors (combine (gather timeout_failure text_first))) = [Image, Video, Text] \<and>
   map errorCode (agg_errors (combine (gather timeout_failure text_first))) =
     [asc ''RATE_LIMIT_EXCEEDED'', asc ''TIMEOUT_ERROR'', asc ''RATE_LIMIT_EXCEEDED'']"
proof -
  have h: "distinct (map fst text_first) \<and> distinct (map fst image_first) \<and>
      set text_first = set image_first"
    by (auto simp: text_first_def image_first_def)
  have "agg_errors (combine (gather timeout_failure text_first)) =
      agg_errors (combine (gather timeout_failure image_first))"
    using combine_errors_fixed_order [of "gather timeout_failure text_first" text_first image_first timeout_failure] h
    by blast
  moreover have "map err_component (agg_errors (combine (gather timeout_failure text_first))) = [Image, Video, Text]"
    by (simp add: combine_def gather_def text_first_def or_default_def outcome_errors_def)
  moreover have "map errorCode (agg_errors (combine (gather timeout_failure text_first))) =
     [asc ''RATE_LIMIT_EXCEEDED'', asc ''TIMEOUT_ERROR'', asc ''RATE_LIMIT_EXCEEDED'']"
    by (simp add: combine_def gather_def text_first_def or_default_def outcome_errors_def
        throttled_def timeout_failure_def)
  ultimately show ?thesis using h by simp
qed

text \<open>The scenario of the specification: no task delivers before the deadline.\<close>

lemma all_timed_out:
  "agg_status (combine (gather timeout_failure ([] :: (component \<times> nat task_outcome) list))) = Failed \<and>
   map err_component (agg_errors (combine (gather timeout_failure ([] :: (component \<times> nat task_outcome) list))))
     = [Image, Video, Text] \<and>
   map errorCode (agg_errors (combine (gather timeout_failure ([] :: (component \<times> nat task_outcome) list))))
     = [asc ''TIMEOUT_ERROR'', asc ''TIMEOUT_ERROR'', asc ''TIMEOUT_ERROR'']"
  by (simp add: combine_def gather_def or_default_def outcome_errors_def succeeded_def
      timeout_failure_def)

section \<open>Purity of the aggregator\<close>

text \<open>
  C8. The aggregation step gives the same assets, status and errors in every world and
  hands the world on unchanged: run twice in a row on the same outcomes it returns the
  same result twice and the world it started from. The result is determined by the set
  of outcomes: two deliveries of the same outcomes in different orders aggregate to the
  same assets, status and errors.
\<close>

theorem combine_pure:
  "fst (aggregate_step os w1) = fst (aggregate_step os w2) \<and>
   snd (aggregate_step os w) = w \<and>
   fst (aggregate_step os (snd (aggregate_step os w))) = fst (aggregate_step os w) \<and>
   snd (aggregate_step os (snd (aggregate_step os w))) = w \<and>
   (distinct (map fst xs) \<and> distinct (map fst ys) \<and> set xs = set ys \<longrightarrow>
      combine (gather t xs) = combine (gather t ys))"
  using gather_order_independent [of xs ys t] by (simp add: aggregate_step_def)

theorem combine_pure_witness:
  "distinct (map fst delivered) \<and> distinct (map fst delivered_reordered) \<and>
   set delivered = set delivered_reordered \<and>
   combine (gather timeout_failure delivered) = combine (gather timeout_failure delivered_reordered) \<and>
   agg_status (combine (gather timeout_failure delivered)) = Partial \<and>
   agg_assets (combine (gather timeout_failure delivered)) = [7, 8, 9] \<and>
   map err_component (agg_errors (combine (gather timeout_failure delivered))) = [Image]"
proof -
  have h: "distinct (map fst delivered) \<and> distinct (map fst delivered_reordered) \<and>
      set delivered = set delivered_reordered"
    by (auto simp: delivered_def delivered_reordered_def)
  with combine_pure [of _ _ _ _ delivered delivered_reordered timeout_failure]
  have "combine (gather timeout_failure delivered) = combine (gather timeout_failure delivered_reordered)"
    by blast
  moreover have "agg_status (combine (gather timeout_failure delivered)) = Partial \<and>
      agg_assets (combine (gather timeout_failure delivered)) = [7, 8, 9] \<and>
      map err_component (agg_errors (combine (gather timeout_failure delivered))) = [Image]"
    by (simp add: combine_def gather_def delivered_def or_default_def succeeded_def
        outcome_assets_def outcome_errors_def)
  ultimately show ?thesis using h by simp
qed

section \<open>Determinism of the simulated adapter\<close>

text \<open>
  C10. The string that \<open>generateMarketingCopy\<close> returns is the same whatever timers were
  awaited before: it is determined by the topic and the business type. The only effect of
  a call is one more awaited delay of 2000 ms.
\<close>

theorem generateMarketingCopy_deterministic:
  "fst (generateMarketingCopy topic businessType timers1) =
     fst (generateMarketingCopy topic businessType timers2) \<and>
   snd (generateMarketingCopy topic businessType timers) = timers @ [2000]"
  by (simp add: generateMarketingCopy_def Let_def)

text \<open>The adapter returns the response that the README documents.\<close>

lemma generateMarketingCopy_readme:
  "fst (generateMarketingCopy (asc ''Diwali Sale'') (asc ''Retail'') []) = readme_expected_response"
  by (simp add: generateMarketingCopy_def Let_def readme_expected_response_def asc_def
      replace_whitespace_def isWhiteSpace_def)

section \<open>Video duration\<close>

lemma randomInt_range: "3 \<le> randomInt 3 10 r \<and> randomInt 3 10 r \<le> 10"
proof -
  have "r mod 8 < 8" by simp
  then show ?thesis unfolding randomInt_def by simp
qed

lemma video_request_in_range:
  "3 \<le> sd_video_length (video_request env prompt w) \<and> sd_video_length (video_request env prompt w) \<le> 10"
  using randomInt_range by (simp add: video_request_def)

lemma video_requests_sleep [simp]: "video_requests (sleep ms w) = video_requests w"
  by (simp add: sleep_def)

lemma video_requests_after_call [simp]:
  "video_requests (after_video_call req w) = video_requests w @ [req]"
  by (simp add: after_video_call_def)

lemma video_retry_loop_requests:
  "\<forall>r \<in> set (video_requests w). 3 \<le> sd_video_length r \<and> sd_video_length r \<le> 10 \<Longrightarrow>
   \<forall>r \<in> set (video_requests (snd (video_retry_loop env prompt retries w))).
      3 \<le> sd_video_length r \<and> sd_video_length r \<le> 10"
proof (induction env prompt retries w rule: video_retry_loop.induct)
  case (1 env prompt retries w)
  show ?case
    apply (subst video_retry_loop.simps)
    using 1 video_request_in_range [of env prompt w]
    apply (simp add: Let_def split: model_outcome.splits)
    done
qed

lemma video_retry_loop_result:
  "fst (video_retry_loop env prompt retries w) = Inr x \<Longrightarrow> retries < 3 \<Longrightarrow>
   \<exists>n r d. x = Some d \<and> invokeDiffusion env n r = ModelOutput d \<and>
           3 \<le> sd_video_length r \<and> sd_video_length r \<le> 10"
proof (induction env prompt retries w rule: video_retry_loop.induct)
  case (1 env prompt retries w)
  from "1.prems" show ?case
    apply (subst (asm) video_retry_loop.simps)
    using "1.IH" video_request_in_range [of env prompt w]
    apply (auto simp: Let_def split: model_outcome.splits if_splits)
    done
qed


lemma video_requests_putObject [simp]: "video_requests (putObject k b w) = video_requests w"
  by (simp add: putObject_def)

lemma video_requests_generateUUID [simp]: "video_requests (snd (generateUUID env w)) = video_requests w"
  by (simp add: generateUUID_def)

text \<open>
  A twelve-second video comes back from the model: the asset records twelve seconds,
  although the request asked for four.
\<close>

theorem generateVideo_duration_counterexample:
  "generated_duration demo_lambda_env (asc ''user-123'') (asc ''Diwali Sale'') (asc ''proj-0'')
       demo_lambda_world = Some 12 \<and>
   map sd_video_length
     (video_requests (snd (generateVideo demo_lambda_env (asc ''user-123'') (asc ''Diwali Sale'')
                             (asc ''proj-0'') demo_lambda_world))) = [4]"
  by (simp add: generated_duration_def generateVideo_def video_retry_loop.simps video_request_def after_video_call_def
      demo_lambda_env_def demo_lambda_world_def putObject_def generateUUID_def randomInt_def
      Let_def)

text \<open>
  C9, as the code has it. Every request that \<open>generateVideo\<close> sends asks for a video
  length between 3 and 10 seconds. The duration of the asset is what \<open>extractDuration\<close>
  reads from the data the model returned for such a request; the function does not
  compare it with the bounds. So the duration lies between 3 and 10 when the model
  returns videos of the length it was asked for.
\<close>

theorem generateVideo_duration:
  "((\<forall>r \<in> set (video_requests w). 3 \<le> sd_video_length r \<and> sd_video_length r \<le> 10) \<longrightarrow>
      (\<forall>r \<in> set (video_requests (snd (generateVideo env userId prompt projectId w))).
          3 \<le> sd_video_length r \<and> sd_video_length r \<le> 10)) \<and>
   (\<forall>v. fst (generateVideo env userId prompt projectId w) = Inr v \<longrightarrow>
      (\<exists>n r d. invokeDiffusion env n r = ModelOutput d \<and>
               3 \<le> sd_video_length r \<and> sd_video_length r \<le> 10 \<and>
               vid_duration v = extractDuration env (Some d))) \<and>
   ((\<forall>n r d. invokeDiffusion env n r = ModelOutput d \<longrightarrow>
        extractDuration env (Some d) = sd_video_length r) \<longrightarrow>
    (\<forall>v. fst (generateVideo env userId prompt projectId w) = Inr v \<longrightarrow>
        3 \<le> vid_duration v \<and> vid_duration v \<le> 10))"
proof (intro conjI impI allI)
  assume "\<forall>r \<in> set (video_requests w). 3 \<le> sd_video_length r \<and> sd_video_length r \<le> 10"
  from video_retry_loop_requests [OF this, of env prompt 0]
  show "\<forall>r \<in> set (video_requests (snd (generateVideo env userId prompt projectId w))).
          3 \<le> sd_video_length r \<and> sd_video_length r \<le> 10"
    by (cases "video_retry_loop env prompt 0 w")
       (auto simp: generateVideo_def Let_def split_beta split: sum.splits)
next
  fix v assume v: "fst (generateVideo env userId prompt projectId w) = Inr v"
  obtain res w1 where loop: "video_retry_loop env prompt 0 w = (res, w1)"
    by (cases "video_retry_loop env prompt 0 w")
  with v obtain x where x: "res = Inr x" "vid_duration v = extractDuration env x"
    by (cases res) (auto simp: generateVideo_def Let_def split_beta)
  from loop x(1) have "fst (video_retry_loop env prompt 0 w) = Inr x" by simp
  from video_retry_loop_result [OF this] x(2)
  show "\<exists>n r d. invokeDiffusion env n r = ModelOutput d \<and>
               3 \<le> sd_video_length r \<and> sd_video_length r \<le> 10 \<and>
               vid_duration v = extractDuration env (Some d)"
    by auto
next
  fix v
  assume faithful: "\<forall>n r d. invokeDiffusion env n r = ModelOutput d \<longrightarrow>
      extractDuration env (Some d) = sd_video_length r"
    and v: "fst (generateVideo env userId prompt projectId w) = Inr v"
  obtain res w1 where loop: "video_retry_loop env prompt 0 w = (res, w1)"
    by (cases "video_retry_loop env prompt 0 w")
  with v obtain x where x: "res = Inr x" "vid_duration v = extractDuration env x"
    by (cases res) (auto simp: generateVideo_def Let_def split_beta)
  from loop x(1) have "fst (video_retry_loop env prompt 0 w) = Inr x" by simp
  from video_retry_loop_result [OF this] obtain n r d where
    "x = Some d" "invokeDiffusion env n r = ModelOutput d"
    "3 \<le> sd_video_length r" "sd_video_length r \<le> 10"
    by auto
  with faithful x(2) show "3 \<le> vid_duration v" "vid_duration v \<le> 10" by auto
qed

theorem generateVideo_duration_witness:
  "video_requests demo_lambda_world = [] \<and>
   map sd_video_length
     (video_requests (snd (generateVideo faithful_video_env (asc ''user-123'') (asc ''Diwali Sale'')
                             (asc ''proj-0'') demo_lambda_world))) = [4] \<and>
   extractDuration faithful_video_env (Some (replicate 4 0x00)) = 4 \<and>
   generated_duration faithful_video_env (asc ''user-123'') (asc ''Diwali Sale'') (asc ''proj-0'')
       demo_lambda_world = Some 4 \<and>
   3 \<le> (4::nat) \<and> (4::nat) \<le> 10"
proof -
  have run: "video_requests demo_lambda_world = [] \<and>
      map sd_video_length
        (video_requests (snd (generateVideo faithful_video_env (asc ''user-123'') (asc ''Diwali Sale'')
                                (asc ''proj-0'') demo_lambda_world))) = [4] \<and>
      extractDuration faithful_video_env (Some (replicate 4 0x00)) = 4 \<and>
      generated_duration faithful_video_env (asc ''user-123'') (asc ''Diwali Sale'') (asc ''proj-0'')
          demo_lambda_world = Some 4"
    by (simp add: faithful_video_env_def generated_duration_def generateVideo_def
        video_retry_loop.simps video_request_def after_video_call_def demo_lambda_env_def
        demo_lambda_world_def putObject_def generateUUID_def randomInt_def Let_def)
  have faithful: "\<forall>n r d. invokeDiffusion faithful_video_env n r = ModelOutput d \<longrightarrow>
      extractDuration faithful_video_env (Some d) = sd_video_length r"
    by (auto simp: faithful_video_env_def)
  obtain v where v: "fst (generateVideo faithful_video_env (asc ''user-123'') (asc ''Diwali Sale'')
      (asc ''proj-0'') demo_lambda_world) = Inr v" "vid_duration v = 4"
    using run by (auto simp: generated_duration_def split: sum.splits)
  from generateVideo_duration
    [of demo_lambda_world faithful_video_env "asc ''user-123''" "asc ''Diwali Sale''" "asc ''proj-0''"]
    faithful v(1)
  have "3 \<le> vid_duration v \<and> vid_duration v \<le> 10" by blast
  with v(2) run show ?thesis by simp
qed

section \<open>Hashtag sets\<close>

lemma startsWith_hash: "startsWith t (asc ''#'') \<longleftrightarrow> t \<noteq> [] \<and> hd t = 0x23"
  by (cases t) (simp_all add: startsWith_def asc_def)

lemma parseHashtags_hash: "t \<in> set (parseHashtags text) \<Longrightarrow> t \<noteq> [] \<and> hd t = 0x23"
  by (simp add: parseHashtags_def startsWith_hash)

lemma bedrock_calls_sleep [simp]: "bedrock_calls (sleep ms w) = bedrock_calls w"
  by (simp add: sleep_def)

lemma claude_retry_loop_calls:
  "claude_retry_loop env req retries w = (r, w') \<Longrightarrow> bedrock_calls w \<le> bedrock_calls w'"
proof (induction env req retries w rule: claude_retry_loop.induct)
  case (1 env req retries w)
  from "1.prems" show ?case
    apply (subst (asm) claude_retry_loop.simps)
    using "1.IH"
    apply (auto simp: Let_def split: model_outcome.splits if_splits)
     apply (metis Suc_leD)+
    done
qed

lemma claude_retry_loop_text:
  "claude_retry_loop env req retries w = (ClaudeText t, w') \<Longrightarrow>
   \<exists>n. bedrock_calls w \<le> n \<and> n < bedrock_calls w' \<and> invokeClaude env n req = ModelOutput t"
proof (induction env req retries w rule: claude_retry_loop.induct)
  case (1 env req retries w)
  from "1.prems" show ?case
    apply (subst (asm) claude_retry_loop.simps)
    using "1.IH"
    apply (auto simp: Let_def split: model_outcome.splits if_splits)
     apply (metis Suc_leD)+
    done
qed

lemma callClaude_calls:
  "callClaude env prompt p w = (r, w') \<Longrightarrow> bedrock_calls w \<le> bedrock_calls w'"
  unfolding callClaude_def Let_def by (rule claude_retry_loop_calls)

lemma callClaude_text:
  "callClaude env prompt p w = (ClaudeText t, w') \<Longrightarrow>
   \<exists>n. bedrock_calls w \<le> n \<and> n < bedrock_calls w' \<and>
       invokeClaude env n \<lparr>claude_content = prompt,
                            claude_max_tokens = maxTokens (getPlatformConstraints p)\<rparr> = ModelOutput t"
  unfolding callClaude_def Let_def by (rule claude_retry_loop_text)

lemma set_dict_set: "set (dict_set k v d) \<subseteq> insert (k, v) (set d)"
  by (induction d) auto

text \<open>
  The loop of \<open>generateText\<close> keeps this true of every hashtag set it has filed: the set
  is filed under a platform of the request, and it is \<open>parseHashtags\<close> of the text that
  Claude returned, in one of the calls made so far, to the hashtag prompt of that
  platform.
\<close>

lemma text_for_platforms_hashtags:
  assumes "text_for_platforms env prompt ps out w = (Inr out', w')"
    and "lo \<le> bedrock_calls w"
    and "set ps \<subseteq> S"
    and "\<And>p tags. (p, tags) \<in> set (hashtags out) \<Longrightarrow>
           p \<in> S \<and>
           (\<exists>n t. lo \<le> n \<and> n < bedrock_calls w \<and>
                  invokeClaude env n \<lparr>claude_content = buildHashtagPrompt prompt p,
                                       claude_max_tokens = maxTokens (getPlatformConstraints p)\<rparr>
                    = ModelOutput t \<and>
                  tags = parseHashtags t)"
    and "(p, tags) \<in> set (hashtags out')"
  shows "p \<in> S \<and>
         (\<exists>n t. lo \<le> n \<and> n < bedrock_calls w' \<and>
                invokeClaude env n \<lparr>claude_content = buildHashtagPrompt prompt p,
                                     claude_max_tokens = maxTokens (getPlatformConstraints p)\<rparr>
                  = ModelOutput t \<and>
                tags = parseHashtags t)"
  using assms
proof (induction ps arbitrary: out w)
  case Nil
  then show ?case by simp
next
  case (Cons q qs)
  obtain c w1 where c: "callClaude env (buildCaptionPrompt prompt q) q w = (c, w1)"
    by (cases "callClaude env (buildCaptionPrompt prompt q) q w")
  obtain h w2 where h: "callClaude env (buildHashtagPrompt prompt q) q w1 = (h, w2)"
    by (cases "callClaude env (buildHashtagPrompt prompt q) q w1")
  from Cons.prems(1) c h obtain t where t: "h = ClaudeText t"
    and rest: "text_for_platforms env prompt qs
                 (out\<lparr>captions := dict_set q c (captions out),
                      hashtags := dict_set q (parseHashtags t) (hashtags out)\<rparr>) w2 = (Inr out', w')"
    by (cases h) (auto simp: Let_def)
  have w_w1: "bedrock_calls w \<le> bedrock_calls w1" using c by (rule callClaude_calls)
  have w1_w2: "bedrock_calls w1 \<le> bedrock_calls w2" using h by (rule callClaude_calls)
  from h t obtain n where n: "bedrock_calls w1 \<le> n" "n < bedrock_calls w2"
    "invokeClaude env n \<lparr>claude_content = buildHashtagPrompt prompt q,
                          claude_max_tokens = maxTokens (getPlatformConstraints q)\<rparr> = ModelOutput t"
    using callClaude_text [of env "buildHashtagPrompt prompt q" q w1 t w2] by auto
  have lo: "lo \<le> bedrock_calls w2" using Cons.prems(2) w_w1 w1_w2 by simp
  have sub: "set qs \<subseteq> S" and q: "q \<in> S" using Cons.prems(3) by auto
  have inv: "p \<in> S \<and>
       (\<exists>n t. lo \<le> n \<and> n < bedrock_calls w2 \<and>
              invokeClaude env n \<lparr>claude_content = buildHashtagPrompt prompt p,
                                   claude_max_tokens = maxTokens (getPlatformConstraints p)\<rparr>
                = ModelOutput t \<and>
              tags = parseHashtags t)"
    if "(p, tags) \<in> set (hashtags
                 (out\<lparr>captions := dict_set q c (captions out),
                      hashtags := dict_set q (parseHashtags t) (hashtags out)\<rparr>))" for p tags
  proof -
    from that set_dict_set [of q "parseHashtags t" "hashtags out"]
    have "(p, tags) = (q, parseHashtags t) \<or> (p, tags) \<in> set (hashtags out)" by auto
    then show ?thesis
    proof
      assume new: "(p, tags) = (q, parseHashtags t)"
      have "lo \<le> n" using Cons.prems(2) w_w1 n(1) by simp
      with new n(2,3) q show ?thesis by auto
    next
      assume "(p, tags) \<in> set (hashtags out)"
      from Cons.prems(4) [OF this] obtain m u where
        "p \<in> S" "lo \<le> m" "m < bedrock_calls w"
        "invokeClaude env m \<lparr>claude_content = buildHashtagPrompt prompt p,
                              claude_max_tokens = maxTokens (getPlatformConstraints p)\<rparr>
           = ModelOutput u"
        "tags = parseHashtags u"
        by blast
      moreover from this(3) w_w1 w1_w2 have "m < bedrock_calls w2" by simp
      ultimately show ?thesis by blast
    qed
  qed
  from Cons.IH [OF rest lo sub inv Cons.prems(5)] show ?case .
qed

lemma buildHashtagPrompt_asks_for_range:
  "startsWith (buildHashtagPrompt userPrompt Instagram)
     (asc ''Generate 5-10 relevant Instagram hashtags for: '') \<and>
   startsWith (buildHashtagPrompt userPrompt LinkedIn)
     (asc ''Generate 3-5 professional LinkedIn hashtags for: '')"
  by (simp add: buildHashtagPrompt_def startsWith_def)

lemma split_words_no_space:
  "\<forall>x \<in> set s. \<not> isWhiteSpace x \<Longrightarrow> split_words cur (s @ b) = split_words (cur @ s) b"
  by (induction s arbitrary: cur) auto

lemma split_words_after_space:
  "isWhiteSpace c \<Longrightarrow> split_words cur (a @ c # b) = split_words cur (a @ [c]) @ split_words [] b"
  by (induction a arbitrary: cur) auto

lemma newline_is_space: "isWhiteSpace 0x000A"
  by (simp add: isWhiteSpace_def)

lemma parseHashtags_after_newline:
  "parseHashtags (a @ 0x000A # b) = parseHashtags (a @ [0x000A]) @ parseHashtags b"
proof -
  have "split_words [] (a @ 0x000A # b) = split_words [] (a @ [0x000A]) @ split_words [] b"
    by (rule split_words_after_space [OF newline_is_space])
  then show ?thesis by (simp add: parseHashtags_def split_def)
qed

lemma split_fixed_tags:
  "split_words [] (asc ''#IndianBusiness #LocalShop #SpecialOffer'') =
     [asc ''#IndianBusiness'', asc ''#LocalShop'', asc ''#SpecialOffer'']"
  by (simp add: asc_def isWhiteSpace_def)

lemma parseHashtags_hashtag_line:
  "parseHashtags (hashtag_line topic) =
     [asc ''#'' @ replace_whitespace topic, asc ''#IndianBusiness'', asc ''#LocalShop'',
      asc ''#SpecialOffer'']"
proof -
  have nows: "\<forall>x \<in> set (asc ''#'' @ replace_whitespace topic). \<not> isWhiteSpace x"
    by (auto simp: asc_def replace_whitespace_def isWhiteSpace_def)
  have "hashtag_line topic =
      (asc ''#'' @ replace_whitespace topic) @ 0x0020 # asc ''#IndianBusiness #LocalShop #SpecialOffer''"
    by (simp add: hashtag_line_def asc_def)
  then have "split (hashtag_line topic) =
      split_words (asc ''#'' @ replace_whitespace topic)
        (0x0020 # asc ''#IndianBusiness #LocalShop #SpecialOffer'')"
    using split_words_no_space [OF nows, of "[]"] by (simp add: split_def)
  also have "\<dots> = (asc ''#'' @ replace_whitespace topic) #
      split_words [] (asc ''#IndianBusiness #LocalShop #SpecialOffer'')"
    by (simp add: isWhiteSpace_def asc_def)
  finally show ?thesis
    by (simp add: parseHashtags_def split_fixed_tags startsWith_hash) (simp add: asc_def)
qed

lemma generateMarketingCopy_ends_with_hashtag_line:
  "\<exists>before. fst (generateMarketingCopy topic businessType timers) = before @ 0x000A # hashtag_line topic"
  by (simp add: generateMarketingCopy_def Let_def hashtag_line_def)


text \<open>
  Asked for Instagram hashtags, the model answers with one tag: the set holds one tag,
  below the minimum of five that the platform constraints name. The simulated adapter's
  response for \<open>Diwali Sale\<close> carries four.
\<close>

theorem hashtag_count_counterexample:
  "generated_hashtags demo_lambda_env (asc ''Diwali Sale'') [Instagram] demo_lambda_world
     = [(Instagram, [asc ''#sale''])] \<and>
   minHashtags (getPlatformConstraints Instagram) = 5 \<and>
   parseHashtags demo_response =
     [asc ''#DiwaliSale'', asc ''#IndianBusiness'', asc ''#LocalShop'', asc ''#SpecialOffer'']"
proof (intro conjI)
  show "generated_hashtags demo_lambda_env (asc ''Diwali Sale'') [Instagram] demo_lambda_world
     = [(Instagram, [asc ''#sale''])]"
    by (simp add: generated_hashtags_def generateText_def callClaude_def claude_retry_loop.simps demo_lambda_env_def
        demo_lambda_world_def Let_def parseHashtags_def split_def startsWith_def asc_def
        isWhiteSpace_def)
  show "minHashtags (getPlatformConstraints Instagram) = 5"
    by (simp add: getPlatformConstraints_def)
  show "parseHashtags demo_response =
     [asc ''#DiwaliSale'', asc ''#IndianBusiness'', asc ''#LocalShop'', asc ''#SpecialOffer'']"
    by (simp add: demo_response_def generateMarketingCopy_def Let_def parseHashtags_def split_def
        startsWith_def asc_def replace_whitespace_def isWhiteSpace_def)
qed

text \<open>
  C4, as the code has it. Every tag that \<open>parseHashtags\<close> returns starts with \<open>#\<close>. Each
  hashtag set that \<open>generateText\<close> files under a platform is filed under a platform of
  the request and is \<open>parseHashtags\<close> of the text Claude returned, in one of the calls
  of this run, to the hashtag prompt built for that platform; so it holds as many tags
  as that text has words starting with \<open>#\<close>. The prompt asks for 5-10 hashtags for
  Instagram and for 3-5 for LinkedIn. The response of the simulated adapter ends with
  the four tags of its last line.
\<close>

theorem hashtags_start_with_hash:
  "(\<forall>t \<in> set (parseHashtags text). t \<noteq> [] \<and> hd t = 0x23) \<and>
   (\<forall>out p tags. fst (generateText env prompt ps w) = Inr out \<and> (p, tags) \<in> set (hashtags out) \<longrightarrow>
      p \<in> set ps \<and>
      (\<exists>n t. bedrock_calls w \<le> n \<and> n < bedrock_calls (snd (generateText env prompt ps w)) \<and>
             invokeClaude env n \<lparr>claude_content = buildHashtagPrompt prompt p,
                                  claude_max_tokens = maxTokens (getPlatformConstraints p)\<rparr>
               = ModelOutput t \<and>
             tags = parseHashtags t) \<and>
      (\<forall>t \<in> set tags. t \<noteq> [] \<and> hd t = 0x23)) \<and>
   startsWith (buildHashtagPrompt prompt Instagram)
     (asc ''Generate 5-10 relevant Instagram hashtags for: '') \<and>
   startsWith (buildHashtagPrompt prompt LinkedIn)
     (asc ''Generate 3-5 professional LinkedIn hashtags for: '') \<and>
   (\<exists>before. parseHashtags (fst (generateMarketingCopy topic businessType timers)) =
      before @ [asc ''#'' @ replace_whitespace topic, asc ''#IndianBusiness'', asc ''#LocalShop'',
                asc ''#SpecialOffer''])"
proof (intro conjI allI impI ballI)
  fix t assume "t \<in> set (parseHashtags text)"
  then show "t \<noteq> []" "hd t = 0x23" using parseHashtags_hash by blast+
next
  fix out p tags
  assume a: "fst (generateText env prompt ps w) = Inr out \<and> (p, tags) \<in> set (hashtags out)"
  obtain w' where run: "generateText env prompt ps w = (Inr out, w')"
    using a by (cases "generateText env prompt ps w") simp
  then have loop: "text_for_platforms env prompt ps \<lparr>captions = [], hashtags = []\<rparr> w = (Inr out, w')"
    by (simp add: generateText_def)
  have filed: "p \<in> set ps \<and>
      (\<exists>n t. bedrock_calls w \<le> n \<and> n < bedrock_calls w' \<and>
             invokeClaude env n \<lparr>claude_content = buildHashtagPrompt prompt p,
                                  claude_max_tokens = maxTokens (getPlatformConstraints p)\<rparr>
               = ModelOutput t \<and>
             tags = parseHashtags t)"
    by (rule text_for_platforms_hashtags [OF loop _ _ _ conjunct2 [OF a]]) simp_all
  then show "p \<in> set ps" by simp
  from filed run
  show model: "\<exists>n t. bedrock_calls w \<le> n \<and> n < bedrock_calls (snd (generateText env prompt ps w)) \<and>
             invokeClaude env n \<lparr>claude_content = buildHashtagPrompt prompt p,
                                  claude_max_tokens = maxTokens (getPlatformConstraints p)\<rparr>
               = ModelOutput t \<and>
             tags = parseHashtags t"
    by simp
  fix t assume "t \<in> set tags"
  with model show "t \<noteq> []" "hd t = 0x23" using parseHashtags_hash by blast+
next
  show "startsWith (buildHashtagPrompt prompt Instagram)
     (asc ''Generate 5-10 relevant Instagram hashtags for: '')"
    using buildHashtagPrompt_asks_for_range by blast
  show "startsWith (buildHashtagPrompt prompt LinkedIn)
     (asc ''Generate 3-5 professional LinkedIn hashtags for: '')"
    using buildHashtagPrompt_asks_for_range by blast
next
  obtain before where
    "fst (generateMarketingCopy topic businessType timers) = before @ 0x000A # hashtag_line topic"
    using generateMarketingCopy_ends_with_hashtag_line by blast
  then have "parseHashtags (fst (generateMarketingCopy topic businessType timers)) =
      parseHashtags (before @ [0x000A]) @ parseHashtags (hashtag_line topic)"
    using parseHashtags_after_newline [of before "hashtag_line topic"] by simp
  then show "\<exists>before. parseHashtags (fst (generateMarketingCopy topic businessType timers)) =
      before @ [asc ''#'' @ replace_whitespace topic, asc ''#IndianBusiness'', asc ''#LocalShop'',
                asc ''#SpecialOffer'']"
    by (simp add: parseHashtags_hashtag_line)
qed

theorem hashtags_start_with_hash_witness:
  "asc ''#sale'' \<in> set (parseHashtags (asc ''buy #sale now'')) \<and>
   hd (asc ''#sale'') = 0x23 \<and>
   generateText chatty_env (asc ''Diwali Sale'') [LinkedIn] demo_lambda_world =
     (Inr \<lparr>captions = [(LinkedIn, ClaudeText (asc ''Big savings!''))],
           hashtags = [(LinkedIn, [asc ''#sale'', asc ''#deal''])]\<rparr>,
      demo_lambda_world\<lparr>bedrock_calls := 2\<rparr>) \<and>
   LinkedIn \<in> set [LinkedIn] \<and>
   bedrock_calls demo_lambda_world \<le> 1 \<and> (1::nat) < 2 \<and>
   invokeClaude chatty_env 1
       \<lparr>claude_content = buildHashtagPrompt (asc ''Diwali Sale'') LinkedIn,
        claude_max_tokens = maxTokens (getPlatformConstraints LinkedIn)\<rparr>
     = ModelOutput (asc ''get the #sale #deal'') \<and>
   parseHashtags (asc ''get the #sale #deal'') = [asc ''#sale'', asc ''#deal'']"
proof -
  have run: "generateText chatty_env (asc ''Diwali Sale'') [LinkedIn] demo_lambda_world =
     (Inr \<lparr>captions = [(LinkedIn, ClaudeText (asc ''Big savings!''))],
           hashtags = [(LinkedIn, [asc ''#sale'', asc ''#deal''])]\<rparr>,
      demo_lambda_world\<lparr>bedrock_calls := 2\<rparr>)"
    by (simp add: generateText_def callClaude_def claude_retry_loop.simps chatty_env_def
        demo_lambda_env_def demo_lambda_world_def Let_def parseHashtags_def split_def
        startsWith_def asc_def isWhiteSpace_def buildHashtagPrompt_def buildCaptionPrompt_def)
  have call: "invokeClaude chatty_env 1
       \<lparr>claude_content = buildHashtagPrompt (asc ''Diwali Sale'') LinkedIn,
        claude_max_tokens = maxTokens (getPlatformConstraints LinkedIn)\<rparr>
     = ModelOutput (asc ''get the #sale #deal'')"
    by (simp add: chatty_env_def buildHashtagPrompt_def startsWith_def asc_def)
  have parse: "parseHashtags (asc ''get the #sale #deal'') = [asc ''#sale'', asc ''#deal''] \<and>
      asc ''#sale'' \<in> set (parseHashtags (asc ''buy #sale now'')) \<and> hd (asc ''#sale'') = 0x23"
    by (simp add: parseHashtags_def split_def startsWith_def asc_def isWhiteSpace_def)
  have filed: "(LinkedIn, [asc ''#sale'', asc ''#deal'']) \<in>
      set (hashtags \<lparr>captions = [(LinkedIn, ClaudeText (asc ''Big savings!''))],
                      hashtags = [(LinkedIn, [asc ''#sale'', asc ''#deal''])]\<rparr>)"
    by simp
  from hashtags_start_with_hash
    [of "asc ''buy #sale now''" chatty_env "asc ''Diwali Sale''" "[LinkedIn]" demo_lambda_world]
    run filed
  have "\<forall>t \<in> set [asc ''#sale'', asc ''#deal'']. t \<noteq> [] \<and> hd t = 0x23"
    by (metis fst_conv)
  with run call parse show ?thesis by (simp add: demo_lambda_world_def)
qed

section \<open>Storage keys\<close>

text \<open>
  C7. The request names Instagram twice. \<open>generateImages\<close> then builds the key
  \<open>instagram_0.png\<close> twice, and likewise for the indices 1 and 2: the six image assets
  share three storage keys, and each key is written to the bucket twice.
\<close>

theorem generateImages_repeated_platform:
  "generated_image_keys demo_lambda_env (asc ''user-123'') (asc ''Diwali Sale'') (asc ''proj-0'') 3
       [Instagram, Instagram] demo_lambda_world =
     [asc ''users/user-123/projects/proj-0/images/instagram_0.png'',
      asc ''users/user-123/projects/proj-0/images/instagram_0.png'',
      asc ''users/user-123/projects/proj-0/images/instagram_1.png'',
      asc ''users/user-123/projects/proj-0/images/instagram_1.png'',
      asc ''users/user-123/projects/proj-0/images/instagram_2.png'',
      asc ''users/user-123/projects/proj-0/images/instagram_2.png''] \<and>
   \<not> distinct (generated_image_keys demo_lambda_env (asc ''user-123'') (asc ''Diwali Sale'')
                  (asc ''proj-0'') 3 [Instagram, Instagram] demo_lambda_world) \<and>
   \<not> distinct (map fst (bucket (snd (generateImages demo_lambda_env (asc ''user-123'')
                  (asc ''Diwali Sale'') (asc ''proj-0'') 3 [Instagram, Instagram] demo_lambda_world))))"
  by (simp add: generated_image_keys_def generateImages_def three_attempts image_iteration_def
      image_retry_loop.simps demo_lambda_env_def demo_lambda_world_def putObject_def
      generateUUID_def Let_def image_s3Key_def platform_name_def getPlatformDimensions_def
      show_nat.simps asc_def)


text \<open>
  With pairwise different platforms the keys are pairwise different; the lemmas below
  show it. The decimal numeral of an index determines the index.
\<close>

lemma show_nat_not_empty: "show_nat n \<noteq> []"
  by (subst show_nat.simps) simp

lemma show_nat_length: "10 \<le> n \<Longrightarrow> 2 \<le> length (show_nat n)"
proof -
  assume "10 \<le> n"
  then have "show_nat n = show_nat (n div 10) @ [0x30 + of_nat (n mod 10)]"
    by (subst show_nat.simps) simp
  moreover have "1 \<le> length (show_nat (n div 10))"
    using show_nat_not_empty [of "n div 10"] by (cases "show_nat (n div 10)") simp_all
  ultimately show ?thesis by simp
qed

lemma digit_inj:
  assumes "a < 10" "b < 10" "(0x30 + of_nat a :: jschar) = 0x30 + of_nat b"
  shows "a = b"
proof -
  from assms(3) have "(of_nat a :: jschar) = of_nat b" by simp
  then have "unat (of_nat a :: jschar) = unat (of_nat b :: jschar)" by simp
  with assms(1,2) show ?thesis by (simp add: unat_of_nat)
qed

lemma show_nat_inj: "show_nat n = show_nat m \<Longrightarrow> n = m"
proof (induction n arbitrary: m rule: show_nat.induct)
  case (1 n)
  show ?case
  proof (cases "n < 10")
    case small: True
    then have n: "show_nat n = [0x30 + of_nat n]" by (subst show_nat.simps) simp
    show ?thesis
    proof (cases "m < 10")
      case True
      then have "show_nat m = [0x30 + of_nat m]" by (subst show_nat.simps) simp
      with n "1.prems" small True show ?thesis using digit_inj by simp
    next
      case False
      then have "2 \<le> length (show_nat m)" using show_nat_length by simp
      with n "1.prems" show ?thesis by simp
    qed
  next
    case big: False
    then have n: "show_nat n = show_nat (n div 10) @ [0x30 + of_nat (n mod 10)]"
      by (subst show_nat.simps) simp
    show ?thesis
    proof (cases "m < 10")
      case True
      then have "show_nat m = [0x30 + of_nat m]" by (subst show_nat.simps) simp
      moreover from big have "2 \<le> length (show_nat n)" using show_nat_length by simp
      ultimately show ?thesis using "1.prems" by simp
    next
      case False
      then have "show_nat m = show_nat (m div 10) @ [0x30 + of_nat (m mod 10)]"
        by (subst show_nat.simps) simp
      with n "1.prems" have eq: "show_nat (n div 10) = show_nat (m div 10)"
        and d: "(0x30 + of_nat (n mod 10) :: jschar) = 0x30 + of_nat (m mod 10)"
        by simp_all
      from "1.IH" [OF big eq] have "n div 10 = m div 10" .
      moreover from d have "n mod 10 = m mod 10" by (intro digit_inj) simp_all
      ultimately show ?thesis by (metis div_mult_mod_eq)
    qed
  qed
qed

lemma image_s3Key_inj:
  "image_s3Key userId projectId p i = image_s3Key userId projectId q j \<Longrightarrow> p = q \<and> i = j"
  by (cases p; cases q) (auto simp: image_s3Key_def platform_name_def asc_def dest: show_nat_inj)

lemma image_iteration_keys:
  "image_iteration env userId prompt projectId i p acc w = (Inr acc', w') \<Longrightarrow>
   map img_s3Key (fst acc') = map img_s3Key (fst acc) @ [image_s3Key userId projectId p i]"
  by (auto simp: image_iteration_def Let_def split_beta split: sum.splits prod.splits)

lemma for_platforms_keys:
  "for_platforms env userId prompt projectId i ps acc w = (Inr acc', w') \<Longrightarrow>
   map img_s3Key (fst acc') =
     map img_s3Key (fst acc) @ map (\<lambda>p. image_s3Key userId projectId p i) ps"
proof (induction ps arbitrary: acc w)
  case Nil
  then show ?case by simp
next
  case (Cons p ps)
  obtain r w1 where step: "image_iteration env userId prompt projectId i p acc w = (r, w1)"
    by (cases "image_iteration env userId prompt projectId i p acc w")
  with Cons.prems obtain acc1 where r: "r = Inr acc1"
    and rest: "for_platforms env userId prompt projectId i ps acc1 w1 = (Inr acc', w')"
    by (cases r) auto
  from step r have "map img_s3Key (fst acc1) =
      map img_s3Key (fst acc) @ [image_s3Key userId projectId p i]"
    by (simp add: image_iteration_keys)
  with Cons.IH [OF rest] show ?case by simp
qed

lemma for_indices_keys:
  "for_indices env userId prompt projectId ps is acc w = (Inr acc', w') \<Longrightarrow>
   map img_s3Key (fst acc') =
     map img_s3Key (fst acc) @
     concat (map (\<lambda>i. map (\<lambda>p. image_s3Key userId projectId p i) ps) is)"
proof (induction "is" arbitrary: acc w)
  case Nil
  then show ?case by simp
next
  case (Cons i "is")
  obtain r w1 where step: "for_platforms env userId prompt projectId i ps acc w = (r, w1)"
    by (cases "for_platforms env userId prompt projectId i ps acc w")
  with Cons.prems obtain acc1 where r: "r = Inr acc1"
    and rest: "for_indices env userId prompt projectId ps is acc1 w1 = (Inr acc', w')"
    by (cases r) auto
  from step r have "map img_s3Key (fst acc1) =
      map img_s3Key (fst acc) @ map (\<lambda>p. image_s3Key userId projectId p i) ps"
    by (simp add: for_platforms_keys)
  with Cons.IH [OF rest] show ?case by simp
qed

lemma generateImages_keys:
  assumes "fst (generateImages env userId prompt projectId count ps w) = Inr images"
  shows "map img_s3Key images =
     concat (map (\<lambda>i. map (\<lambda>p. image_s3Key userId projectId p i) ps) [0..<count])"
proof -
  obtain r w1 where run: "for_indices env userId prompt projectId ps [0..<count] ([], None) w = (r, w1)"
    by (cases "for_indices env userId prompt projectId ps [0..<count] ([], None) w")
  with assms obtain acc where "r = Inr acc" "images = fst acc"
    by (cases r) (auto simp: generateImages_def)
  with run for_indices_keys [of env userId prompt projectId ps "[0..<count]" "([], None)" w acc w1]
  show ?thesis by simp
qed

lemma keys_distinct:
  assumes "distinct ps"
  shows "distinct (concat (map (\<lambda>i. map (\<lambda>p. image_s3Key userId projectId p i) ps) [0..<count]))"
proof -
  have "concat (map (\<lambda>i. map (\<lambda>p. image_s3Key userId projectId p i) ps) [0..<count]) =
      map (\<lambda>ip. image_s3Key userId projectId (snd ip) (fst ip)) (List.product [0..<count] ps)"
    by (simp add: product_concat_map map_concat comp_def)
  moreover have "distinct (List.product [0..<count] ps)"
    using assms by (simp add: distinct_product)
  moreover have "inj_on (\<lambda>ip. image_s3Key userId projectId (snd ip) (fst ip))
      (set (List.product [0..<count] ps))"
    by (rule inj_onI) (auto dest: image_s3Key_inj simp: prod_eq_iff)
  ultimately show ?thesis by (simp add: distinct_map)
qed

lemma video_key_not_image_key:
  "video_s3Key userId projectId \<noteq> image_s3Key userId projectId p i"
  by (simp add: video_s3Key_def image_s3Key_def asc_def)

lemma generateVideo_key:
  "fst (generateVideo env userId prompt projectId w) = Inr v \<Longrightarrow>
   vid_s3Key v = video_s3Key userId projectId"
  by (auto simp: generateVideo_def Let_def split_beta split: sum.splits prod.splits)

text \<open>
  When the platforms of the request are pairwise different, the storage keys of the
  generated images and of the video are pairwise different.
\<close>

lemma storage_keys_distinct_for_distinct_platforms:
  assumes "distinct ps"
    and "fst (generateImages env userId prompt projectId count ps w) = Inr images"
    and "fst (generateVideo env' userId prompt projectId w') = Inr v"
  shows "distinct (map img_s3Key images @ [vid_s3Key v])"
proof -
  have "vid_s3Key v \<notin> set (map img_s3Key images)"
    using generateImages_keys [OF assms(2)] generateVideo_key [OF assms(3)]
      video_key_not_image_key [of userId projectId]
    by auto
  with keys_distinct [OF assms(1)] generateImages_keys [OF assms(2)] show ?thesis by simp
qed

end
